theory Spec2Isabelle
  imports Complex_Main "HOL-Library.Char_ord" "HOL-Library.List_Lexorder"
begin

section \<open>Values\<close>

subsection \<open>float64 cells\<close>

text \<open>
  A float64 cell is a real number or one of the three special values of IEEE 754.
  Rounding, overflow of finite results and the sign of zero are outside the model:
  arithmetic on finite values is exact real arithmetic.
\<close>

datatype npfloat = Fin real | PInf | NInf | NaN

type_synonym ndarray = "npfloat list"

datatype error = ValueError | TypeError | IndexError | KeyError

fun np_neg :: "npfloat \<Rightarrow> npfloat" where
  "np_neg (Fin x) = Fin (- x)"
| "np_neg PInf = NInf"
| "np_neg NInf = PInf"
| "np_neg NaN = NaN"

fun np_add :: "npfloat \<Rightarrow> npfloat \<Rightarrow> npfloat" where
  "np_add (Fin x) (Fin y) = Fin (x + y)"
| "np_add NaN y = NaN"
| "np_add x NaN = NaN"
| "np_add PInf NInf = NaN"
| "np_add NInf PInf = NaN"
| "np_add PInf y = PInf"
| "np_add x PInf = PInf"
| "np_add NInf y = NInf"
| "np_add x NInf = NInf"

definition np_sub :: "npfloat \<Rightarrow> npfloat \<Rightarrow> npfloat" where
  "np_sub x y = np_add x (np_neg y)"

fun np_mul :: "npfloat \<Rightarrow> npfloat \<Rightarrow> npfloat" where
  "np_mul (Fin x) (Fin y) = Fin (x * y)"
| "np_mul NaN y = NaN"
| "np_mul x NaN = NaN"
| "np_mul PInf (Fin y) = (if y = 0 then NaN else if 0 < y then PInf else NInf)"
| "np_mul NInf (Fin y) = (if y = 0 then NaN else if 0 < y then NInf else PInf)"
| "np_mul (Fin x) PInf = (if x = 0 then NaN else if 0 < x then PInf else NInf)"
| "np_mul (Fin x) NInf = (if x = 0 then NaN else if 0 < x then NInf else PInf)"
| "np_mul PInf PInf = PInf"
| "np_mul PInf NInf = NInf"
| "np_mul NInf PInf = NInf"
| "np_mul NInf NInf = PInf"

fun np_div :: "npfloat \<Rightarrow> npfloat \<Rightarrow> npfloat" where
  "np_div (Fin x) (Fin y) =
     (if y = 0 then (if x = 0 then NaN else if 0 < x then PInf else NInf)
      else Fin (x / y))"
| "np_div NaN y = NaN"
| "np_div x NaN = NaN"
| "np_div (Fin x) PInf = Fin 0"
| "np_div (Fin x) NInf = Fin 0"
| "np_div PInf (Fin y) = (if 0 \<le> y then PInf else NInf)"
| "np_div NInf (Fin y) = (if 0 \<le> y then NInf else PInf)"
| "np_div PInf PInf = NaN"
| "np_div PInf NInf = NaN"
| "np_div NInf PInf = NaN"
| "np_div NInf NInf = NaN"

fun np_sqrt :: "npfloat \<Rightarrow> npfloat" where
  "np_sqrt (Fin x) = (if x < 0 then NaN else Fin (sqrt x))"
| "np_sqrt PInf = PInf"
| "np_sqrt NInf = NaN"
| "np_sqrt NaN = NaN"

fun np_abs :: "npfloat \<Rightarrow> npfloat" where
  "np_abs (Fin x) = Fin \<bar>x\<bar>"
| "np_abs PInf = PInf"
| "np_abs NInf = PInf"
| "np_abs NaN = NaN"

text \<open>Comparisons: every comparison with NaN is false, also \<open>NaN == NaN\<close>.\<close>

fun np_lt :: "npfloat \<Rightarrow> npfloat \<Rightarrow> bool" where
  "np_lt (Fin x) (Fin y) = (x < y)"
| "np_lt NaN y = False"
| "np_lt x NaN = False"
| "np_lt PInf y = False"
| "np_lt x NInf = False"
| "np_lt (Fin x) PInf = True"
| "np_lt NInf (Fin y) = True"
| "np_lt NInf PInf = True"

fun np_le :: "npfloat \<Rightarrow> npfloat \<Rightarrow> bool" where
  "np_le (Fin x) (Fin y) = (x \<le> y)"
| "np_le NaN y = False"
| "np_le x NaN = False"
| "np_le NInf y = True"
| "np_le x PInf = True"
| "np_le PInf y = False"
| "np_le x NInf = False"

definition np_gt :: "npfloat \<Rightarrow> npfloat \<Rightarrow> bool" where
  "np_gt x y = np_lt y x"

definition np_ge :: "npfloat \<Rightarrow> npfloat \<Rightarrow> bool" where
  "np_ge x y = np_le y x"

definition np_eq :: "npfloat \<Rightarrow> npfloat \<Rightarrow> bool" where
  "np_eq x y = (x \<noteq> NaN \<and> x = y)"

subsection \<open>One-dimensional arrays\<close>

text \<open>
  An element-wise binary operation on two one-dimensional arrays: equal lengths pair up,
  a length-one operand is broadcast, any other pair of shapes raises ValueError.
\<close>

definition np_binop ::
  "(npfloat \<Rightarrow> npfloat \<Rightarrow> npfloat) \<Rightarrow> ndarray \<Rightarrow> ndarray \<Rightarrow> error + ndarray" where
  "np_binop f xs ys =
     (if length xs = length ys then Inr (map2 f xs ys)
      else if length xs = 1 then Inr (map (f (hd xs)) ys)
      else if length ys = 1 then Inr (map (\<lambda>x. f x (hd ys)) xs)
      else Inl ValueError)"

definition np_sum :: "ndarray \<Rightarrow> npfloat" where
  "np_sum xs = foldl np_add (Fin 0) xs"

definition np_mean :: "ndarray \<Rightarrow> npfloat" where
  "np_mean xs = np_div (np_sum xs) (Fin (real (length xs)))"

section \<open>statistics.py\<close>

subsection \<open>calc\_vertex\_xpos\<close>

text \<open>
  Arrays are passed by reference, so the function is modelled on a store of arrays:
  \<open>a\<close> and \<open>b\<close> are the addresses of the two arguments. The first statement,
  \<^verbatim>\<open>a[a == 0] = np.nan\<close>, writes into the caller's array; the second reads both
  arrays from the updated store.
\<close>

type_synonym addr = nat
type_synonym store = "addr \<Rightarrow> ndarray"

definition zero_to_nan :: "ndarray \<Rightarrow> ndarray" where
  "zero_to_nan xs = map (\<lambda>x. if np_eq x (Fin 0) then NaN else x) xs"

definition calc_vertex_xpos :: "addr \<Rightarrow> addr \<Rightarrow> store \<Rightarrow> (error + ndarray) \<times> store" where
  "calc_vertex_xpos a b h =
     (let h1 = h(a := zero_to_nan (h a));
          vertex_xpos = np_binop np_div (map np_neg (h1 b)) (map (np_mul (Fin 2)) (h1 a))
      in (vertex_xpos, h1))"

subsection \<open>calc\_p\_value\<close>



subsection \<open>calc\_pearsonr\_vector\<close>

definition calc_pearsonr_vector :: "ndarray \<Rightarrow> ndarray \<Rightarrow> error + npfloat" where
  "calc_pearsonr_vector x y =
     (let x_dev = map (\<lambda>v. np_sub v (np_mean x)) x;
          y_dev = map (\<lambda>v. np_sub v (np_mean y)) y
      in case np_binop np_mul x_dev y_dev of
           Inl e \<Rightarrow> Inl e
         | Inr xy \<Rightarrow>
             let dev_sum = np_sum xy;
                 x_rss = np_sum (map2 np_mul x_dev x_dev);
                 y_rss = np_sum (map2 np_mul y_dev y_dev)
             in Inr (np_div dev_sum (np_sqrt (np_mul x_rss y_rss))))"


section \<open>inter\_optimizer.py\<close>

subsection \<open>The ieQTL mapper\<close>

text \<open>
  The class of ieQTL objects and the function get\_ieqtls are not among the sources. An
  ieQTL object is modelled by what the optimiser asks of it: its identifier, the two
  coefficient arrays of get\_mll\_coef\_representation(full\_array=True) and its log
  likelihood for a given context vector.

  One call of the mapper, that is remove\_covariates\_elementwise, the two calls of the
  force normaliser and get\_ieqtls on the fixed eQTL, genotype and expression matrices, is
  a parameter \<open>find_ieqtls\<close> of the model: from the label and the context vector it yields the
  number of significant ieQTLs, the number of ieQTLs per sample and the ieQTL objects.
  The results table written per iteration is not modelled.
\<close>

record ieqtl =
  ieqtl_id :: string
  coef_a :: ndarray
  coef_b :: ndarray
  calc_log_likelihood :: "ndarray \<Rightarrow> npfloat"

type_synonym mapping = "nat \<times> nat list \<times> ieqtl list"

type_synonym mapper = "string option \<Rightarrow> ndarray \<Rightarrow> mapping"

fun np_min :: "nat list \<Rightarrow> error + nat" where
  "np_min [] = Inl ValueError"
| "np_min (x # xs) = Inr (fold min xs x)"

subsection \<open>optimize\_ieqtls\<close>

text \<open>
  \<^verbatim>\<open>np.sum(collection, axis=0)\<close> adds the arrays of the collection cell by cell into a new
  array; arrays of different lengths raise ValueError. On an empty collection it yields a
  scalar, on which the item assignment of calc\_vertex\_xpos raises TypeError.
\<close>

fun np_sum_axis0 :: "ndarray list \<Rightarrow> error + ndarray" where
  "np_sum_axis0 [] = Inl TypeError"
| "np_sum_axis0 (r # rs) =
     (if \<forall>x \<in> set rs. length x = length r then Inr (foldl (map2 np_add) r rs)
      else Inl ValueError)"

definition optimize_ieqtls :: "ieqtl list \<Rightarrow> error + ndarray" where
  "optimize_ieqtls ieqtls =
     (case np_sum_axis0 (map coef_a ieqtls) of
        Inl e \<Rightarrow> Inl e
      | Inr coef_a_sum \<Rightarrow>
          (case np_sum_axis0 (map coef_b ieqtls) of
             Inl e \<Rightarrow> Inl e
           | Inr coef_b_sum \<Rightarrow>
               fst (calc_vertex_xpos 0 1 (\<lambda>p. if p = 0 then coef_a_sum else coef_b_sum))))"

definition calculate_log_likelihood :: "ieqtl list \<Rightarrow> ndarray \<Rightarrow> ndarray" where
  "calculate_log_likelihood ieqtls vector = map (\<lambda>q. calc_log_likelihood q vector) ieqtls"

subsection \<open>The state of process\<close>

text \<open>
  The optimiser holds the minimum and maximum number of iterations, the tolerance and the
  number of samples (the number of genotype columns). The three history matrices are
  created by \<^verbatim>\<open>np.empty\<close>: their rows are uninitialised until written, and the model
  takes the initial content of a row as the parameter \<open>uninit\<close>.
\<close>

record optimizer =
  min_iter :: int
  max_iter :: int
  tol :: npfloat
  n_samples :: nat
  uninit :: ndarray

record opt_state =
  context_a :: "ndarray option"
  n_hits :: nat
  stop :: bool
  cov :: "string option"
  prev_included_ieqtls :: "nat \<times> string set"
  n_iterations_performed :: nat
  info_m :: "nat \<Rightarrow> ndarray"
  n_hits_per_sample_m :: "nat \<Rightarrow> ndarray"
  iterations_m :: "nat \<Rightarrow> ndarray"
  covariate_selection :: "(string \<times> nat) list option"

datatype 'a flow = Break 'a | Continue 'a

text \<open>
  Writing an array into a row of length \<open>n\<close>: an array of that length is copied, an
  array of length one is broadcast, any other raises ValueError.
\<close>

definition assign_row :: "nat \<Rightarrow> ndarray \<Rightarrow> error + ndarray" where
  "assign_row n v =
     (if length v = n then Inr v
      else if length v = 1 then Inr (replicate n (hd v))
      else Inl ValueError)"

subsection \<open>Choosing the covariate at the first iteration\<close>

text \<open>
  The names of the covariates and the rows of the covariate matrix come from the same
  data frame in main.py, so the candidates are a list of pairs of a name and a row.
  \<open>select_step\<close> is the body of the loop over the candidates, \<open>select_covariate\<close> the
  loop.
\<close>

record selection =
  sel_cov :: "string option"
  sel_context_a :: "ndarray option"
  sel_n_hits :: nat
  sel_min_n_hits_per_sample :: nat
  sel_n_hits_per_sample_a :: "nat list"
  sel_ieqtls :: "ieqtl list"
  hits_per_cov_data :: "(string \<times> nat) list"

definition select_step :: "mapper \<Rightarrow> selection \<Rightarrow> string \<times> ndarray \<Rightarrow> error + selection" where
  "select_step find_ieqtls sel c =
     (case c of (name, cova_a) \<Rightarrow>
        (case find_ieqtls (Some name) cova_a of (cov_hits, cov_hits_per_sample_a, cov_ieqtls) \<Rightarrow>
           (case np_min cov_hits_per_sample_a of
              Inl e \<Rightarrow> Inl e
            | Inr cov_min_hits_per_sample \<Rightarrow>
                (let sel1 = sel\<lparr>hits_per_cov_data := hits_per_cov_data sel @ [(name, cov_hits)]\<rparr>
                 in if cov_min_hits_per_sample \<ge> 2
                       \<and> (cov_hits > sel_n_hits sel
                          \<or> (cov_hits = sel_n_hits sel
                             \<and> cov_min_hits_per_sample > sel_min_n_hits_per_sample sel))
                    then Inr (sel1\<lparr>sel_cov := Some name,
                                   sel_context_a := Some cova_a,
                                   sel_n_hits := cov_hits,
                                   sel_min_n_hits_per_sample := cov_min_hits_per_sample,
                                   sel_n_hits_per_sample_a := cov_hits_per_sample_a,
                                   sel_ieqtls := cov_ieqtls\<rparr>)
                    else Inr sel1))))"

definition initial_selection :: "optimizer \<Rightarrow> opt_state \<Rightarrow> selection" where
  "initial_selection io s =
     \<lparr>sel_cov = cov s, sel_context_a = None, sel_n_hits = n_hits s,
      sel_min_n_hits_per_sample = 0,
      sel_n_hits_per_sample_a = replicate (n_samples io) 0,
      sel_ieqtls = [], hits_per_cov_data = []\<rparr>"

fun select_covariate :: "mapper \<Rightarrow> (string \<times> ndarray) list \<Rightarrow> selection \<Rightarrow> error + selection" where
  "select_covariate find_ieqtls [] sel = Inr sel"
| "select_covariate find_ieqtls (c # cs) sel =
     (case select_step find_ieqtls sel c of
        Inl e \<Rightarrow> Inl e
      | Inr sel' \<Rightarrow> select_covariate find_ieqtls cs sel')"


text \<open>
  What the mapper reports for a candidate: its number of significant ieQTLs and the
  smallest number of ieQTLs of any sample.
\<close>

definition cand_hits :: "mapper \<Rightarrow> string \<times> ndarray \<Rightarrow> nat" where
  "cand_hits find_ieqtls c = fst (find_ieqtls (Some (fst c)) (snd c))"

definition cand_hits_per_sample :: "mapper \<Rightarrow> string \<times> ndarray \<Rightarrow> nat list" where
  "cand_hits_per_sample find_ieqtls c = fst (snd (find_ieqtls (Some (fst c)) (snd c)))"

definition cand_min :: "mapper \<Rightarrow> string \<times> ndarray \<Rightarrow> nat" where
  "cand_min find_ieqtls c = Min (set (cand_hits_per_sample find_ieqtls c))"

text \<open>
  The invariant of the loop over the candidates: after the candidates \<open>seen\<close>, every
  one of them is listed with its number of ieQTLs, and the selection is either still
  empty, with no candidate of at least two ieQTLs per sample seen, or it is a candidate
  seen that has at least two ieQTLs per sample and that no such candidate beats.
\<close>

definition best_so_far :: "mapper \<Rightarrow> (string \<times> ndarray) list \<Rightarrow> selection \<Rightarrow> bool" where
  "best_so_far find_ieqtls seen sel \<longleftrightarrow>
     hits_per_cov_data sel = map (\<lambda>c. (fst c, cand_hits find_ieqtls c)) seen
     \<and> (case sel_cov sel of
          None \<Rightarrow> sel_n_hits sel = 0 \<and> sel_min_n_hits_per_sample sel = 0
                   \<and> (\<forall>c \<in> set seen. cand_min find_ieqtls c < 2)
        | Some name \<Rightarrow>
            (\<exists>c \<in> set seen. fst c = name \<and> sel_context_a sel = Some (snd c)
               \<and> sel_n_hits sel = cand_hits find_ieqtls c
               \<and> sel_min_n_hits_per_sample sel = cand_min find_ieqtls c
               \<and> 2 \<le> cand_min find_ieqtls c
               \<and> (\<forall>d \<in> set seen. 2 \<le> cand_min find_ieqtls d \<longrightarrow>
                      cand_hits find_ieqtls d < cand_hits find_ieqtls c
                      \<or> (cand_hits find_ieqtls d = cand_hits find_ieqtls c
                         \<and> cand_min find_ieqtls d \<le> cand_min find_ieqtls c))))"

subsection \<open>One iteration of process\<close>

text \<open>
  Both abort branches of an iteration (not enough ieQTLs, not enough ieQTLs for some
  sample) leave the loop; at iteration 0 they first discard the context and clear the
  stop flag.
\<close>

definition abort_iteration :: "nat \<Rightarrow> opt_state \<Rightarrow> opt_state" where
  "abort_iteration iteration s =
     (if iteration = 0 then s\<lparr>context_a := None, stop := False\<rparr> else s)"

text \<open>
  Optimising the context and storing the iteration: the rows of the history matrices and
  the six statistics of the iteration. The result is the new state together with the
  optimised context, the Pearson correlation of the context before and after, and the set
  of the identifiers of the ieQTLs.
\<close>

definition overlap_stats :: "nat \<times> string set \<Rightarrow> string set \<Rightarrow> npfloat \<times> npfloat" where
  "overlap_stats prev included_ieqtl_ids =
     (if snd prev \<noteq> {} then
        (let n_overlap = card (snd prev \<inter> included_ieqtl_ids)
         in (Fin (real n_overlap),
             np_mul (np_div (Fin 100) (Fin (real (fst prev)))) (Fin (real n_overlap))))
      else (NaN, NaN))"

definition store_iteration ::
  "optimizer \<Rightarrow> nat \<Rightarrow> opt_state \<Rightarrow> ndarray \<Rightarrow> nat \<Rightarrow> nat list \<Rightarrow> ieqtl list
     \<Rightarrow> error + (opt_state \<times> ndarray \<times> npfloat \<times> string set)" where
  "store_iteration io iteration s c min_n_hits_per_sample n_hits_per_sample_a ieqtls =
     (case optimize_ieqtls ieqtls of
        Inl e \<Rightarrow> Inl e
      | Inr optimized_context_a \<Rightarrow>
     (case (if iteration = 0 then assign_row (n_samples io) c else Inr c) of
        Inl e \<Rightarrow> Inl e
      | Inr start_row \<Rightarrow>
     (case assign_row (n_samples io) optimized_context_a of
        Inl e \<Rightarrow> Inl e
      | Inr optimized_row \<Rightarrow>
     (case assign_row (n_samples io) (map (\<lambda>k. Fin (real k)) n_hits_per_sample_a) of
        Inl e \<Rightarrow> Inl e
      | Inr hits_row \<Rightarrow>
     (case calc_pearsonr_vector c optimized_context_a of
        Inl e \<Rightarrow> Inl e
      | Inr pearsonr \<Rightarrow>
         (let pre_optimization_ll_a = calculate_log_likelihood ieqtls c;
              post_optimization_ll_a = calculate_log_likelihood ieqtls optimized_context_a;
              sum_abs_norm_delta_ll =
                np_sum (map2 (\<lambda>post pre. np_div (np_abs (np_sub post pre)) (np_abs pre))
                          post_optimization_ll_a pre_optimization_ll_a);
              included_ieqtl_ids = set (map ieqtl_id ieqtls);
              overlap = overlap_stats (prev_included_ieqtls s) included_ieqtl_ids;
              its = (if iteration = 0 then (iterations_m s)(0 := start_row)
                     else iterations_m s)
          in Inr (s\<lparr>iterations_m := its(iteration + 1 := optimized_row),
                     n_hits_per_sample_m := (n_hits_per_sample_m s)(iteration := hits_row),
                     info_m := (info_m s)(iteration :=
                        [Fin (real (n_hits s)), Fin (real min_n_hits_per_sample),
                         fst overlap, snd overlap, sum_abs_norm_delta_ll, pearsonr])\<rparr>,
                  optimized_context_a, pearsonr, included_ieqtl_ids)))))))"

text \<open>
  The check for an oscillating loop, with the state as it is after the iteration has
  been stored: \<open>n_hits\<close> is the number of ieQTLs of this iteration and
  \<open>prev_included_ieqtls\<close> belongs to the previous iteration. The result is the final
  state when the loop is left here.
\<close>

definition oscillation :: "optimizer \<Rightarrow> nat \<Rightarrow> opt_state \<Rightarrow> error + opt_state option" where
  "oscillation io iteration s =
     (if iteration \<ge> 3 \<and> int iteration \<ge> min_iter io then
        (case calc_pearsonr_vector (iterations_m s (iteration - 1))
                                   (iterations_m s (iteration + 1)) of
           Inl e \<Rightarrow> Inl e
         | Inr pearsonr1 \<Rightarrow>
        (case calc_pearsonr_vector (iterations_m s (iteration - 2))
                                   (iterations_m s iteration) of
           Inl e \<Rightarrow> Inl e
         | Inr pearsonr2 \<Rightarrow>
            (let current_iter_passed_tol = np_lt (np_sub (Fin 1) pearsonr1) (tol io);
                 previous_iter_passed_tol = np_lt (np_sub (Fin 1) pearsonr2) (tol io)
             in if current_iter_passed_tol \<or> previous_iter_passed_tol then
                  Inr (Some
                    ((if (\<not> current_iter_passed_tol \<and> previous_iter_passed_tol)
                         \<or> (current_iter_passed_tol \<and> previous_iter_passed_tol
                            \<and> fst (prev_included_ieqtls s) > n_hits s)
                      then s\<lparr>context_a := Some (iterations_m s iteration),
                             n_hits := fst (prev_included_ieqtls s)\<rparr>
                      else s\<lparr>n_iterations_performed := n_iterations_performed s + 1\<rparr>)
                     \<lparr>stop := False\<rparr>))
                else Inr None)))
      else Inr None)"

text \<open>The end of an iteration that did not leave the loop earlier.\<close>

definition next_round ::
  "optimizer \<Rightarrow> opt_state \<Rightarrow> ndarray \<Rightarrow> npfloat \<Rightarrow> string set \<Rightarrow> opt_state flow" where
  "next_round io s optimized_context_a pearsonr included_ieqtl_ids =
     (let s1 = s\<lparr>context_a := Some optimized_context_a,
                 prev_included_ieqtls := (n_hits s, included_ieqtl_ids),
                 n_iterations_performed := n_iterations_performed s + 1\<rparr>
      in if int (n_iterations_performed s1) \<ge> min_iter io
            \<and> np_lt (np_sub (Fin 1) pearsonr) (tol io)
         then Break (s1\<lparr>stop := False\<rparr>)
         else Continue s1)"

text \<open>
  The part of an iteration after the ieQTLs have been found for the context \<open>c\<close>.
\<close>

definition optimize_step ::
  "optimizer \<Rightarrow> nat \<Rightarrow> opt_state \<Rightarrow> nat \<Rightarrow> nat list \<Rightarrow> ieqtl list \<Rightarrow> error + opt_state flow" where
  "optimize_step io iteration s min_n_hits_per_sample n_hits_per_sample_a ieqtls =
     (if n_hits s \<le> 1 then Inr (Break (abort_iteration iteration s))
      else if min_n_hits_per_sample \<le> 1 then Inr (Break (abort_iteration iteration s))
      else
        (case context_a s of
           None \<Rightarrow> Inl TypeError
         | Some c \<Rightarrow>
        (case store_iteration io iteration s c min_n_hits_per_sample n_hits_per_sample_a ieqtls of
           Inl e \<Rightarrow> Inl e
         | Inr (s1, optimized_context_a, pearsonr, included_ieqtl_ids) \<Rightarrow>
        (case oscillation io iteration s1 of
           Inl e \<Rightarrow> Inl e
         | Inr (Some s2) \<Rightarrow> Inr (Break s2)
         | Inr None \<Rightarrow> Inr (next_round io s1 optimized_context_a pearsonr included_ieqtl_ids)))))"

text \<open>
  The whole body of the loop. With a single candidate the context is that candidate from
  iteration 0 on. While there is no context, every candidate is tried and the best one is
  taken; when none qualifies the loop is left with no context and the stop flag cleared.
\<close>

definition process_iteration ::
  "optimizer \<Rightarrow> mapper \<Rightarrow> (string \<times> ndarray) list \<Rightarrow> nat \<Rightarrow> opt_state \<Rightarrow> error + opt_state flow" where
  "process_iteration io find_ieqtls covs iteration s =
     (let s0 = (if iteration = 0 \<and> length covs = 1
                then s\<lparr>context_a := Some (snd (hd covs)), cov := Some (fst (hd covs))\<rparr>
                else s)
      in case context_a s0 of
           None \<Rightarrow>
             (case select_covariate find_ieqtls covs (initial_selection io s0) of
                Inl e \<Rightarrow> Inl e
              | Inr sel \<Rightarrow>
                  (if sel_cov sel = None
                   then Inr (Break (s0\<lparr>context_a := None, stop := False\<rparr>))
                   else optimize_step io iteration
                          (s0\<lparr>cov := sel_cov sel, context_a := sel_context_a sel,
                              n_hits := sel_n_hits sel,
                              covariate_selection := Some (hits_per_cov_data sel)\<rparr>)
                          (sel_min_n_hits_per_sample sel) (sel_n_hits_per_sample_a sel)
                          (sel_ieqtls sel)))
         | Some c \<Rightarrow>
             (case find_ieqtls (cov s0) c of (hits, n_hits_per_sample_a, ieqtls) \<Rightarrow>
                (case np_min n_hits_per_sample_a of
                   Inl e \<Rightarrow> Inl e
                 | Inr min_n_hits_per_sample \<Rightarrow>
                     optimize_step io iteration (s0\<lparr>n_hits := hits\<rparr>)
                       min_n_hits_per_sample n_hits_per_sample_a ieqtls)))"

subsection \<open>process\<close>

text \<open>
  The loop \<^verbatim>\<open>for iteration in range(self.max_iter)\<close>: the first argument counts the
  iterations that remain. A negative maximum makes \<^verbatim>\<open>np.empty\<close> raise ValueError.
  The value returned by process is the triple of the context, the number of ieQTLs and
  the stop flag of the final state.
\<close>

fun process_loop ::
  "optimizer \<Rightarrow> mapper \<Rightarrow> (string \<times> ndarray) list \<Rightarrow> nat \<Rightarrow> nat \<Rightarrow> opt_state \<Rightarrow> error + opt_state" where
  "process_loop io find_ieqtls covs 0 iteration s = Inr s"
| "process_loop io find_ieqtls covs (Suc k) iteration s =
     (case process_iteration io find_ieqtls covs iteration s of
        Inl e \<Rightarrow> Inl e
      | Inr (Break s') \<Rightarrow> Inr s'
      | Inr (Continue s') \<Rightarrow> process_loop io find_ieqtls covs k (Suc iteration) s')"

definition initial_state :: "optimizer \<Rightarrow> opt_state" where
  "initial_state io =
     \<lparr>context_a = None, n_hits = 0, stop = True, cov = None,
      prev_included_ieqtls = (0, {}), n_iterations_performed = 0,
      info_m = (\<lambda>i. uninit io), n_hits_per_sample_m = (\<lambda>i. uninit io),
      iterations_m = (\<lambda>i. uninit io), covariate_selection = None\<rparr>"

definition process ::
  "optimizer \<Rightarrow> mapper \<Rightarrow> (string \<times> ndarray) list \<Rightarrow> error + opt_state" where
  "process io find_ieqtls covs =
     (if max_iter io < 0 then Inl ValueError
      else process_loop io find_ieqtls covs (nat (max_iter io)) 0 (initial_state io))"

definition returned :: "opt_state \<Rightarrow> ndarray option \<times> nat \<times> bool" where
  "returned s = (context_a s, n_hits s, stop s)"

text \<open>
  The table written to iteration.txt.gz: the start vector and one row for every iteration
  counted in \<open>n_iterations_performed\<close>.
\<close>

definition iteration_df :: "opt_state \<Rightarrow> ndarray list" where
  "iteration_df s = map (iterations_m s) [0..<n_iterations_performed s + 1]"

text \<open>
  The first column of the table written to info.txt.gz: the number of ieQTLs of every
  iteration counted.
\<close>

definition info_df_N :: "opt_state \<Rightarrow> npfloat list" where
  "info_df_N s = map (\<lambda>i. hd (info_m s i)) [0..<n_iterations_performed s]"


section \<open>main.py: identifying the components\<close>

subsection \<open>Files and outcomes\<close>

text \<open>
  The output directory is a map from paths to contents. \<open>ComponentNpy k\<close> is
  \<^verbatim>\<open>PIC{k}/component.npy\<close>, \<open>InfoTxt k\<close> and \<open>IterationTxt k\<close> are the tables that
  process writes into \<^verbatim>\<open>PIC{k}\<close>, \<open>PICInteractionsTxt k\<close> is
  \<^verbatim>\<open>PIC_interactions/PIC{k}.txt.gz\<close>. A results table of the mapper is represented by
  the number of significant ieQTLs it lists; info.txt.gz by its column \<open>N\<close>.
\<close>

datatype path =
    ComponentNpy nat | IterationTxt nat | InfoTxt nat | ComponentsTxt | PICsTxt
  | SummaryStatsTxt | PICInteractionsTxt nat | CallRateTxt | GenotypeStatsTxt

datatype content =
    Npy ndarray | Table "ndarray list" | InfoN "npfloat list"
  | SummaryStats "(npfloat \<times> npfloat) list" | Results nat

type_synonym files = "path \<rightharpoonup> content"

text \<open>
  A part of a run ends in one of three ways: an exception that nobody catches, a call of
  \<^verbatim>\<open>exit\<close>, or a value with which the run goes on. \<^verbatim>\<open>exit()\<close> raises SystemExit with
  the given status; the status None, which is what a call without argument passes, is
  exit code 0. An uncaught exception is exit code 1. A call of \<^verbatim>\<open>exit\<close> carries the
  files written so far; the files written before an exception are not tracked.
\<close>

datatype 'a stage = Raise error | Exit "int option" files | Next 'a

fun exit_code :: "files stage \<Rightarrow> int" where
  "exit_code (Raise e) = 1"
| "exit_code (Exit None fs) = 0"
| "exit_code (Exit (Some n) fs) = n"
| "exit_code (Next fs) = 0"

subsection \<open>The loop over the components\<close>

text \<open>
  Of the command line the loop uses the number of components and the flag
  \<^verbatim>\<open>-force_continue\<close>; the other fields of the record are the thresholds of the
  quality control.
\<close>

record config =
  genotype_na :: int
  min_dataset_sample_size :: int
  call_rate :: npfloat
  hw_pval :: npfloat
  maf :: npfloat
  mgs :: int
  n_components :: int
  force_continue :: bool

text \<open>
  The state of the loop. \<open>pic_m\<close> is created by \<^verbatim>\<open>np.empty\<close>, like the history
  matrices of the optimiser. The two correction matrices grow by one column for every
  component found; \<open>corr_pics\<close> lists these columns. Removing the covariates from the
  expression matrix and mapping on the result is a parameter \<open>find_with\<close> of the model:
  from the components in the correction matrices it yields the mapper that process uses.
\<close>

record driver_state =
  pic_m :: "nat \<Rightarrow> ndarray"
  summary_stats_m :: "(npfloat \<times> npfloat) list"
  n_components_performed :: nat
  pic_a :: "ndarray option"
  stop_d :: bool
  corr_pics :: "ndarray list"
  components_df :: "ndarray list option"
  out_files :: files

definition initial_driver_state :: "config \<Rightarrow> optimizer \<Rightarrow> files \<Rightarrow> driver_state" where
  "initial_driver_state cfg io fs =
     \<lparr>pic_m = (\<lambda>i. uninit io),
      summary_stats_m = replicate (nat (n_components cfg)) (NaN, NaN),
      n_components_performed = 0, pic_a = None, stop_d = False, corr_pics = [],
      components_df = None, out_files = fs\<rparr>"

text \<open>The files that process writes into the directory of component \<open>k\<close>.\<close>

definition process_files :: "nat \<Rightarrow> opt_state \<Rightarrow> files \<Rightarrow> files" where
  "process_files k s fs =
     (let fs1 = fs(IterationTxt k \<mapsto> Table (iteration_df s))
      in if n_iterations_performed s > 0 then fs1(InfoTxt k \<mapsto> InfoN (info_df_N s)) else fs1)"

text \<open>The end of a pass of the loop: count the component and write components.txt.gz.\<close>

definition count_component :: "driver_state \<Rightarrow> driver_state" where
  "count_component st =
     (let n = n_components_performed st + 1;
          df = map (pic_m st) [0..<n]
      in st\<lparr>n_components_performed := n, components_df := Some df,
             out_files := (out_files st)(ComponentsTxt \<mapsto> Table df)\<rparr>)"

text \<open>
  A component whose file component.npy exists is loaded instead of computed; its number
  of ieQTLs is the last entry of column \<open>N\<close> of its info.txt.gz, when that file exists.
\<close>

definition load_component :: "optimizer \<Rightarrow> nat \<Rightarrow> ndarray \<Rightarrow> driver_state \<Rightarrow> error + driver_state" where
  "load_component io comp_count v st =
     (case assign_row (n_samples io) v of
        Inl e \<Rightarrow> Inl e
      | Inr row \<Rightarrow>
          (let st1 = st\<lparr>pic_a := Some v, pic_m := (pic_m st)(comp_count := row)\<rparr>
           in case out_files st (InfoTxt (comp_count + 1)) of
                None \<Rightarrow> Inr st1
              | Some (InfoN ns) \<Rightarrow>
                  (if ns = [] then Inl IndexError
                   else Inr (st1\<lparr>summary_stats_m := (summary_stats_m st)
                               [comp_count := (last ns, snd (summary_stats_m st ! comp_count))]\<rparr>))
              | Some other \<Rightarrow> Inl KeyError))"

definition component_step ::
  "config \<Rightarrow> optimizer \<Rightarrow> (ndarray list \<Rightarrow> mapper) \<Rightarrow> (string \<times> ndarray) list \<Rightarrow> nat
     \<Rightarrow> driver_state \<Rightarrow> error + driver_state flow" where
  "component_step cfg io find_with covs comp_count st =
     (if stop_d st \<and> \<not> force_continue cfg then Inr (Break st)
      else
        (let st1 = (case pic_a st of
                      None \<Rightarrow> st
                    | Some p \<Rightarrow> st\<lparr>corr_pics := corr_pics st @ [p]\<rparr>)
         in case out_files st1 (ComponentNpy (comp_count + 1)) of
              Some (Npy v) \<Rightarrow>
                (case load_component io comp_count v st1 of
                   Inl e \<Rightarrow> Inl e
                 | Inr st2 \<Rightarrow> Inr (Continue (count_component st2)))
            | Some other \<Rightarrow> Inl ValueError
            | None \<Rightarrow>
                (case process io (find_with (corr_pics st1)) covs of
                   Inl e \<Rightarrow> Inl e
                 | Inr s \<Rightarrow>
                     (let st2 = st1\<lparr>pic_a := context_a s, stop_d := stop s,
                                    summary_stats_m := (summary_stats_m st1)
                                      [comp_count := (Fin (real (n_hits s)),
                                                      snd (summary_stats_m st1 ! comp_count))],
                                    out_files := process_files (comp_count + 1) s (out_files st1)\<rparr>
                      in case context_a s of
                           None \<Rightarrow> Inr (Break st2)
                         | Some p \<Rightarrow>
                             (case assign_row (n_samples io) p of
                                Inl e \<Rightarrow> Inl e
                              | Inr row \<Rightarrow>
                                  Inr (Continue (count_component
                                    (st2\<lparr>pic_m := (pic_m st2)(comp_count := row),
                                         out_files := (out_files st2)
                                           (ComponentNpy (comp_count + 1) \<mapsto> Npy p)\<rparr>))))))))"

fun components_loop ::
  "config \<Rightarrow> optimizer \<Rightarrow> (ndarray list \<Rightarrow> mapper) \<Rightarrow> (string \<times> ndarray) list \<Rightarrow> nat \<Rightarrow> nat
     \<Rightarrow> driver_state \<Rightarrow> error + driver_state" where
  "components_loop cfg io find_with covs 0 comp_count st = Inr st"
| "components_loop cfg io find_with covs (Suc k) comp_count st =
     (case component_step cfg io find_with covs comp_count st of
        Inl e \<Rightarrow> Inl e
      | Inr (Break st') \<Rightarrow> Inr st'
      | Inr (Continue st') \<Rightarrow> components_loop cfg io find_with covs k (Suc comp_count) st')"

definition identify_components ::
  "config \<Rightarrow> optimizer \<Rightarrow> (ndarray list \<Rightarrow> mapper) \<Rightarrow> (string \<times> ndarray) list \<Rightarrow> files
     \<Rightarrow> error + driver_state" where
  "identify_components cfg io find_with covs fs =
     (if n_components cfg < 0 then Inl ValueError
      else components_loop cfg io find_with covs (nat (n_components cfg)) 0
             (initial_driver_state cfg io fs))"

subsection \<open>After the loop\<close>

text \<open>
  Mapping the ieQTLs of every final component on the expression corrected without the
  components is a parameter \<open>raw_n_hits\<close>: from the index of the component and its
  vector it yields the number of significant ieQTLs.
\<close>

fun map_pics ::
  "(nat \<Rightarrow> ndarray \<Rightarrow> nat) \<Rightarrow> nat \<Rightarrow> ndarray list \<Rightarrow> (npfloat \<times> npfloat) list \<times> files
     \<Rightarrow> (npfloat \<times> npfloat) list \<times> files" where
  "map_pics raw_n_hits pic_index [] acc = acc"
| "map_pics raw_n_hits pic_index (pic # pics) (stats, fs) =
     map_pics raw_n_hits (Suc pic_index) pics
       (stats[pic_index := (fst (stats ! pic_index), Fin (real (raw_n_hits pic_index pic)))],
        fs(PICInteractionsTxt (pic_index + 1) \<mapsto> Results (raw_n_hits pic_index pic)))"

definition finish_run ::
  "config \<Rightarrow> (nat \<Rightarrow> ndarray \<Rightarrow> nat) \<Rightarrow> driver_state \<Rightarrow> files stage" where
  "finish_run cfg raw_n_hits st =
     (if n_components_performed st = 0 then
        Exit None ((out_files st)(SummaryStatsTxt \<mapsto> SummaryStats (summary_stats_m st)))
      else
        (case components_df st of
           None \<Rightarrow> Raise TypeError
         | Some rows \<Rightarrow>
             (let pics_df = (if stop_d st \<and> \<not> force_continue cfg then butlast rows else rows);
                  fs1 = (out_files st)(PICsTxt \<mapsto> Table pics_df);
                  mapped = map_pics raw_n_hits 0 pics_df (summary_stats_m st, fs1)
              in Next ((snd mapped)(SummaryStatsTxt \<mapsto> SummaryStats (fst mapped))))))"

definition run_components ::
  "config \<Rightarrow> optimizer \<Rightarrow> (ndarray list \<Rightarrow> mapper) \<Rightarrow> (nat \<Rightarrow> ndarray \<Rightarrow> nat)
     \<Rightarrow> (string \<times> ndarray) list \<Rightarrow> files \<Rightarrow> files stage" where
  "run_components cfg io find_with raw_n_hits covs fs =
     (case identify_components cfg io find_with covs fs of
        Inl e \<Rightarrow> Raise e
      | Inr st \<Rightarrow> finish_run cfg raw_n_hits st)"

subsection \<open>The invariant of the loop over the components\<close>

text \<open>
  After \<open>k\<close> passes that went on to the next component, \<open>k\<close> components are counted.
  When the state holds a component, it is the one of the last such pass: its row is the
  last of the \<open>k\<close> rows written to components.txt.gz, and it is the content of
  \<^verbatim>\<open>PIC{k}/component.npy\<close>.
\<close>

definition counted :: "optimizer \<Rightarrow> nat \<Rightarrow> driver_state \<Rightarrow> bool" where
  "counted io k st \<longleftrightarrow>
     n_components_performed st = k
     \<and> (\<forall>p. pic_a st = Some p \<longrightarrow>
            0 < k
            \<and> assign_row (n_samples io) p = Inr (pic_m st (k - 1))
            \<and> components_df st = Some (map (pic_m st) [0..<k])
            \<and> out_files st ComponentsTxt = Some (Table (map (pic_m st) [0..<k]))
            \<and> out_files st (ComponentNpy k) = Some (Npy p))"

section \<open>main.py: the input data and the quality control\<close>

subsection \<open>Data frames\<close>

text \<open>
  A data frame has row labels, column labels and rectangular float64 cells, one list for
  every row. The table of eQTLs is loaded without an index column: a row has the columns
  \<^verbatim>\<open>SNPName\<close>, \<^verbatim>\<open>ProbeName\<close> and \<^verbatim>\<open>FDR\<close>, and is paired with its label in the
  index of the frame, which is its position in the file. The sample-to-dataset table is a
  list of pairs of a sample and a dataset. Loading a file (\<^verbatim>\<open>load_dataframe\<close>) is not
  part of the model: the frames are given as loaded.
\<close>

record dataframe =
  df_index :: "string list"
  df_columns :: "string list"
  df_rows :: "ndarray list"

record eqtl =
  SNPName :: string
  ProbeName :: string
  FDR :: npfloat

type_synonym eqtl_frame = "(nat \<times> eqtl) list"

type_synonym std_frame = "(string \<times> string) list"

definition isna :: "dataframe \<Rightarrow> bool" where
  "isna df = list_ex (list_ex (\<lambda>c. c = NaN)) (df_rows df)"

definition df_T :: "dataframe \<Rightarrow> dataframe" where
  "df_T df =
     \<lparr>df_index = df_columns df, df_columns = df_index df,
      df_rows = map (\<lambda>j. map (\<lambda>row. row ! j) (df_rows df)) [0..<length (df_columns df)]\<rparr>"

text \<open>
  Selecting with a boolean mask: the mask must be as long as the axis, otherwise pandas
  raises IndexError.
\<close>

definition select_mask :: "bool list \<Rightarrow> 'a list \<Rightarrow> 'a list" where
  "select_mask keep_mask xs = map snd (filter fst (zip keep_mask xs))"

definition loc_rows :: "bool list \<Rightarrow> 'a list \<Rightarrow> error + 'a list" where
  "loc_rows keep_mask xs = (if length keep_mask = length xs then Inr (select_mask keep_mask xs) else Inl IndexError)"

subsection \<open>Sequencing the parts of a run\<close>

fun bind_stage :: "'a stage \<Rightarrow> ('a \<Rightarrow> 'b stage) \<Rightarrow> 'b stage" where
  "bind_stage (Raise e) f = Raise e"
| "bind_stage (Exit status fs) f = Exit status fs"
| "bind_stage (Next x) f = f x"

fun of_result :: "error + 'a \<Rightarrow> 'a stage" where
  "of_result (Inl e) = Raise e"
| "of_result (Inr x) = Next x"

subsection \<open>validate\_data\<close>

text \<open>
  Every check that fails logs an error and calls \<^verbatim>\<open>exit()\<close>, with no argument. The last
  argument is the content of the output directory at the time of the call.
\<close>

definition validate_data ::
  "std_frame \<Rightarrow> eqtl_frame option \<Rightarrow> dataframe option \<Rightarrow> dataframe option
     \<Rightarrow> dataframe option \<Rightarrow> dataframe option \<Rightarrow> files \<Rightarrow> unit stage" where
  "validate_data std_df eqtl_df geno_df expr_df covs_df tcovs_df fs =
     (let samples = map fst std_df
      in if (case geno_df of None \<Rightarrow> False | Some g \<Rightarrow> df_columns g \<noteq> samples)
         then Exit None fs
         else if (case expr_df of None \<Rightarrow> False | Some x \<Rightarrow> df_columns x \<noteq> samples)
         then Exit None fs
         else if (case covs_df of None \<Rightarrow> False | Some c \<Rightarrow> df_columns c \<noteq> samples)
         then Exit None fs
         else if (case tcovs_df of None \<Rightarrow> False | Some t \<Rightarrow> df_index t \<noteq> samples)
         then Exit None fs
         else
           (case eqtl_df of
              None \<Rightarrow> Next ()
            | Some e \<Rightarrow>
                (let snp_reference = map (\<lambda>r. SNPName (snd r)) e;
                     probe_reference = map (\<lambda>r. ProbeName (snd r)) e
                 in if (case geno_df of None \<Rightarrow> False | Some g \<Rightarrow> df_index g \<noteq> snp_reference)
                    then Exit None fs
                    else if (case expr_df of None \<Rightarrow> False
                             | Some x \<Rightarrow> df_index x \<noteq> probe_reference)
                    then Exit None fs
                    else Next ())))"

subsection \<open>The datasets\<close>

text \<open>
  \<^verbatim>\<open>np.unique\<close> with \<^verbatim>\<open>return_counts\<close> yields the distinct dataset names in sorted
  order, each with the number of its samples; the list is then sorted by decreasing
  number of samples, and the sort is stable. \<open>dataset_df\<close> has one column for every
  dataset; a column is represented by its name and, for every sample in the order of the
  sample-to-dataset table, whether its cell is 1.
\<close>

definition np_unique_counts :: "string list \<Rightarrow> (string \<times> nat) list" where
  "np_unique_counts xs = map (\<lambda>d. (d, count_list xs d)) (sort (remdups xs))"

definition dataset_sample_counts :: "std_frame \<Rightarrow> (string \<times> nat) list" where
  "dataset_sample_counts std_df =
     sort_key (\<lambda>x. - int (snd x)) (np_unique_counts (map snd std_df))"

type_synonym dataset_frame = "(string \<times> bool list) list"

definition construct_dataset_df :: "std_frame \<Rightarrow> dataset_frame" where
  "construct_dataset_df std_df =
     map (\<lambda>csc. (fst csc, map (\<lambda>r. snd r = fst csc) std_df)) (dataset_sample_counts std_df)"

subsection \<open>calculate\_call\_rate\<close>

text \<open>
  For every dataset in turn: the call rate of a row is the number of the cells of the
  samples of the dataset that differ from the missing value, divided by the number of
  these samples; on every row whose call rate is below the threshold, the cells of the
  dataset are overwritten with the missing value. The genotype frame is changed in place.
  The result is the changed frame and the columns of the call rate table.
\<close>

definition na_value :: "config \<Rightarrow> npfloat" where
  "na_value cfg = Fin (real_of_int (genotype_na cfg))"

definition call_rate_s :: "config \<Rightarrow> bool list \<Rightarrow> ndarray \<Rightarrow> npfloat" where
  "call_rate_s cfg sample_mask row =
     np_div (Fin (real (length (filter (\<lambda>c. \<not> np_eq c (na_value cfg))
                                   (select_mask sample_mask row)))))
            (Fin (real (length (filter id sample_mask))))"

definition fill_missing :: "config \<Rightarrow> bool list \<Rightarrow> ndarray \<Rightarrow> ndarray" where
  "fill_missing cfg sample_mask row =
     map (\<lambda>mc. if fst mc then na_value cfg else snd mc) (zip sample_mask row)"

fun call_rate_loop ::
  "config \<Rightarrow> dataset_frame \<Rightarrow> ndarray list \<times> (string \<times> ndarray) list
     \<Rightarrow> ndarray list \<times> (string \<times> ndarray) list" where
  "call_rate_loop cfg [] acc = acc"
| "call_rate_loop cfg ((dataset, sample_mask) # rest) (rows, call_rate_df) =
     (let rates = map (call_rate_s cfg sample_mask) rows;
          rows1 = map (\<lambda>rr. if np_lt (snd rr) (call_rate cfg)
                              then fill_missing cfg sample_mask (fst rr) else fst rr)
                      (zip rows rates)
      in call_rate_loop cfg rest (rows1, call_rate_df @ [(dataset @ '' CR'', rates)]))"

text \<open>
  Selecting the columns of a dataset with its mask raises IndexError when the mask is not
  as long as the genotype frame has columns.
\<close>

definition calculate_call_rate ::
  "config \<Rightarrow> dataframe \<Rightarrow> dataset_frame \<Rightarrow> error + dataframe \<times> (string \<times> ndarray) list" where
  "calculate_call_rate cfg geno_df dataset_df =
     (if list_ex (\<lambda>d. length (snd d) \<noteq> length (df_columns geno_df)) dataset_df
      then Inl IndexError
      else (case call_rate_loop cfg dataset_df (df_rows geno_df, []) of
              (rows, call_rate_df) \<Rightarrow> Inr (geno_df\<lparr>df_rows := rows\<rparr>, call_rate_df)))"

subsection \<open>calculate\_genotype\_stats\<close>

text \<open>
  \<^verbatim>\<open>np.rint\<close> rounds to the nearest integer, and a value halfway between two integers
  to the even one.
\<close>

definition rint :: "real \<Rightarrow> real" where
  "rint x =
     (let f = \<lfloor>x\<rfloor>
      in if x - of_int f < 1 / 2 then of_int f
         else if 1 / 2 < x - of_int f then of_int (f + 1)
         else if even f then of_int f else of_int (f + 1))"

fun np_rint :: "npfloat \<Rightarrow> npfloat" where
  "np_rint (Fin x) = Fin (rint x)"
| "np_rint PInf = PInf"
| "np_rint NInf = NInf"
| "np_rint NaN = NaN"

definition count_eq :: "npfloat \<Rightarrow> ndarray \<Rightarrow> nat" where
  "count_eq v row = length (filter (\<lambda>c. np_eq c v) row)"

text \<open>
  A row of the table of genotype statistics, with the columns of the source in their
  order: \<^verbatim>\<open>N\<close>, \<^verbatim>\<open>NaN\<close>, \<^verbatim>\<open>0\<close>, \<^verbatim>\<open>1\<close>, \<^verbatim>\<open>2\<close>, \<^verbatim>\<open>min GS\<close>, \<^verbatim>\<open>HW pval\<close>,
  \<^verbatim>\<open>allele1\<close>, \<^verbatim>\<open>allele2\<close>, \<^verbatim>\<open>MA\<close>, \<^verbatim>\<open>MAF\<close>.
\<close>

record geno_stats =
  stats_N :: npfloat
  stats_NaN :: npfloat
  stats_0 :: npfloat
  stats_1 :: npfloat
  stats_2 :: npfloat
  stats_min_GS :: npfloat
  stats_HW_pval :: npfloat
  stats_allele1 :: npfloat
  stats_allele2 :: npfloat
  stats_MA :: npfloat
  stats_MAF :: npfloat

text \<open>
  The counts of a row of genotypes after rounding: the cells equal to the missing value,
  the cells that are not, the three genotype groups and the smallest of them, and the two
  allele counts.
\<close>

definition nan_count :: "config \<Rightarrow> ndarray \<Rightarrow> nat" where
  "nan_count cfg row = count_eq (na_value cfg) (map np_rint row)"

definition n_count :: "config \<Rightarrow> ndarray \<Rightarrow> nat" where
  "n_count cfg row = length row - nan_count cfg row"

definition zero_a :: "ndarray \<Rightarrow> nat" where
  "zero_a row = count_eq (Fin 0) (map np_rint row)"

definition one_a :: "ndarray \<Rightarrow> nat" where
  "one_a row = count_eq (Fin 1) (map np_rint row)"

definition two_a :: "ndarray \<Rightarrow> nat" where
  "two_a row = count_eq (Fin 2) (map np_rint row)"

definition sgz :: "ndarray \<Rightarrow> nat" where
  "sgz row = min (zero_a row) (min (one_a row) (two_a row))"

definition allele1_a :: "ndarray \<Rightarrow> nat" where
  "allele1_a row = zero_a row * 2 + one_a row"

definition allele2_a :: "ndarray \<Rightarrow> nat" where
  "allele2_a row = two_a row * 2 + one_a row"

definition maf_a :: "ndarray \<Rightarrow> npfloat" where
  "maf_a row =
     np_div (Fin (real (min (allele1_a row) (allele2_a row))))
            (Fin (real (allele1_a row + allele2_a row)))"

definition ma_a :: "ndarray \<Rightarrow> nat" where
  "ma_a row = (if allele1_a row \<le> allele2_a row then 0 else 1) * 2"

definition stats_row :: "config \<Rightarrow> ndarray \<Rightarrow> npfloat \<Rightarrow> geno_stats" where
  "stats_row cfg row hwe_pvalue =
     \<lparr>stats_N = Fin (real (n_count cfg row)), stats_NaN = Fin (real (nan_count cfg row)),
      stats_0 = Fin (real (zero_a row)), stats_1 = Fin (real (one_a row)),
      stats_2 = Fin (real (two_a row)), stats_min_GS = Fin (real (sgz row)),
      stats_HW_pval = hwe_pvalue,
      stats_allele1 = Fin (real (allele1_a row)), stats_allele2 = Fin (real (allele2_a row)),
      stats_MA = Fin (real (ma_a row)), stats_MAF = maf_a row\<rparr>"

text \<open>
  The exact test of Hardy-Weinberg equilibrium, \<^verbatim>\<open>calc_hwe_pvalue\<close>, is a parameter of
  the model: from the numbers of heterozygotes and of the two kinds of homozygotes of
  every row it yields one p-value for every row, or raises. The quality control only
  compares these p-values with a threshold. Building the frame of the statistics from
  columns of different lengths raises ValueError.
\<close>

type_synonym hwe_test = "nat list \<Rightarrow> nat list \<Rightarrow> nat list \<Rightarrow> error + ndarray"

definition calculate_genotype_stats ::
  "config \<Rightarrow> hwe_test \<Rightarrow> ndarray list \<Rightarrow> error + geno_stats list" where
  "calculate_genotype_stats cfg calc_hwe_pvalue df =
     (case calc_hwe_pvalue (map one_a df) (map zero_a df) (map two_a df) of
        Inl e \<Rightarrow> Inl e
      | Inr hwe_pvalues_a \<Rightarrow>
          (if length hwe_pvalues_a = length df
           then Inr (map (\<lambda>rp. stats_row cfg (fst rp) (snd rp)) (zip df hwe_pvalues_a))
           else Inl ValueError))"

subsection \<open>The rows that pass the requirements\<close>

text \<open>
  A row is left out of the statistics when all its cells equal the missing value; its
  row of the table then keeps \<^verbatim>\<open>N = 0\<close>, \<^verbatim>\<open>NaN\<close> equal to the number of samples, and
  NaN in every other column. The statistics computed for the other rows are written to
  their rows of the table, in order.
\<close>

definition cr_keep :: "config \<Rightarrow> ndarray \<Rightarrow> bool" where
  "cr_keep cfg row = (\<not> list_all (\<lambda>c. np_eq c (na_value cfg)) row)"

definition empty_stats :: "nat \<Rightarrow> geno_stats" where
  "empty_stats n_cols =
     \<lparr>stats_N = Fin 0, stats_NaN = Fin (real n_cols), stats_0 = NaN, stats_1 = NaN,
      stats_2 = NaN, stats_min_GS = NaN, stats_HW_pval = NaN, stats_allele1 = NaN,
      stats_allele2 = NaN, stats_MA = NaN, stats_MAF = NaN\<rparr>"

fun assign_stats :: "geno_stats \<Rightarrow> bool list \<Rightarrow> geno_stats list \<Rightarrow> geno_stats list" where
  "assign_stats d [] computed = []"
| "assign_stats d (False # keep_mask) computed = d # assign_stats d keep_mask computed"
| "assign_stats d (True # keep_mask) [] = d # assign_stats d keep_mask []"
| "assign_stats d (True # keep_mask) (s # computed) = s # assign_stats d keep_mask computed"

definition genotype_stats ::
  "config \<Rightarrow> hwe_test \<Rightarrow> dataframe \<Rightarrow> error + geno_stats list" where
  "genotype_stats cfg calc_hwe_pvalue geno_df =
     (let cr_keep_mask = map (cr_keep cfg) (df_rows geno_df)
      in case calculate_genotype_stats cfg calc_hwe_pvalue
                (select_mask cr_keep_mask (df_rows geno_df)) of
           Inl e \<Rightarrow> Inl e
         | Inr computed \<Rightarrow>
             Inr (assign_stats (empty_stats (length (df_columns geno_df))) cr_keep_mask computed))"

definition keep_row :: "config \<Rightarrow> ndarray \<Rightarrow> geno_stats \<Rightarrow> bool" where
  "keep_row cfg row s =
     (cr_keep cfg row
      \<and> np_ge (stats_N s) (Fin 6)
      \<and> np_ge (stats_min_GS s) (Fin (real_of_int (mgs cfg)))
      \<and> np_ge (stats_HW_pval s) (hw_pval cfg)
      \<and> np_gt (stats_MAF s) (maf cfg))"

definition combined_keep_mask :: "config \<Rightarrow> dataframe \<Rightarrow> geno_stats list \<Rightarrow> bool list" where
  "combined_keep_mask cfg geno_df geno_stats_df =
     map (\<lambda>rs. keep_row cfg (fst rs) (snd rs)) (zip (df_rows geno_df) geno_stats_df)"

text \<open>
  The rows written to genotype\_stats.txt.gz: the eleven statistics and the mask.
\<close>

definition stats_table :: "geno_stats list \<Rightarrow> bool list \<Rightarrow> ndarray list" where
  "stats_table geno_stats_df keep_mask =
     map (\<lambda>sm. [stats_N (fst sm), stats_NaN (fst sm), stats_0 (fst sm), stats_1 (fst sm),
                 stats_2 (fst sm), stats_min_GS (fst sm), stats_HW_pval (fst sm),
                 stats_allele1 (fst sm), stats_allele2 (fst sm), stats_MA (fst sm),
                 stats_MAF (fst sm), Fin (if snd sm then 1 else 0)])
         (zip geno_stats_df keep_mask)"

text \<open>
  The quality control of \<^verbatim>\<open>Main.start\<close>, from the genotype frame as the call rate step
  left it: the statistics, the masks, and the selection of the rows of the eQTL table and
  of the genotype frame that pass. The result also holds the number of rows left out.
\<close>

record qc_result =
  qc_eqtl_df :: eqtl_frame
  qc_geno_df :: dataframe
  qc_mask :: "bool list"
  qc_stats :: "geno_stats list"
  geno_n_skipped :: nat

definition select_rows :: "bool list \<Rightarrow> dataframe \<Rightarrow> dataframe" where
  "select_rows keep_mask df =
     df\<lparr>df_index := select_mask keep_mask (df_index df), df_rows := select_mask keep_mask (df_rows df)\<rparr>"

definition quality_control ::
  "config \<Rightarrow> hwe_test \<Rightarrow> eqtl_frame \<Rightarrow> dataframe \<Rightarrow> error + qc_result" where
  "quality_control cfg calc_hwe_pvalue eqtl_df geno_df =
     (case genotype_stats cfg calc_hwe_pvalue geno_df of
        Inl e \<Rightarrow> Inl e
      | Inr geno_stats_df \<Rightarrow>
          (let keep_mask = combined_keep_mask cfg geno_df geno_stats_df
           in case loc_rows keep_mask eqtl_df of
                Inl e \<Rightarrow> Inl e
              | Inr eqtl_df1 \<Rightarrow>
                  Inr \<lparr>qc_eqtl_df = eqtl_df1, qc_geno_df = select_rows keep_mask geno_df,
                       qc_mask = keep_mask, qc_stats = geno_stats_df,
                       geno_n_skipped = length keep_mask - length (filter id keep_mask)\<rparr>))"

subsection \<open>The run up to the quality control\<close>

text \<open>
  The data of a run: the frames loaded from the files named on the command line. The
  sample-to-dataset table is optional. The expression frame is loaded only after the
  quality control, with the rows to skip and the number of rows to read, so it is a
  function of these two.
\<close>

record inputs =
  eqtl_df :: eqtl_frame
  geno_df :: dataframe
  std_df :: "std_frame option"
  get_expr_df :: "nat list option \<Rightarrow> nat \<Rightarrow> dataframe"
  covs_df :: dataframe
  tcov_df :: "dataframe option"
  tcov_inter_df :: "dataframe option"

text \<open>
  Without a sample-to-dataset table every sample, that is every column of the genotype
  frame, is given the dataset \<^verbatim>\<open>None\<close>. With a table, the header of the genotype frame
  must match its samples.
\<close>

definition sample_to_dataset :: "inputs \<Rightarrow> files \<Rightarrow> std_frame stage" where
  "sample_to_dataset inp fs =
     (case std_df inp of
        Some std \<Rightarrow>
          bind_stage (validate_data std None (Some (geno_df inp)) None None None fs)
            (\<lambda>u. Next std)
      | None \<Rightarrow> Next (map (\<lambda>s. (s, ''None'')) (df_columns (geno_df inp))))"

text \<open>
  The first part of \<^verbatim>\<open>Main.start\<close>: the sample-to-dataset table, the datasets
  (\<^verbatim>\<open>np.max\<close> of an empty list raises ValueError when there is no sample), the call
  rate per dataset, written to call\_rate.txt.gz, and the quality control, written to
  genotype\_stats.txt.gz. The table of the call rates is represented by its columns.
\<close>

record checked =
  ch_std_df :: std_frame
  ch_dataset_df :: dataset_frame
  ch_qc :: qc_result
  ch_files :: files

definition check_genotypes :: "config \<Rightarrow> hwe_test \<Rightarrow> inputs \<Rightarrow> files \<Rightarrow> checked stage" where
  "check_genotypes cfg calc_hwe_pvalue inp fs =
     bind_stage (sample_to_dataset inp fs) (\<lambda>std.
       if dataset_sample_counts std = [] then Raise ValueError
       else
         (let dataset_df = construct_dataset_df std
          in bind_stage (of_result (calculate_call_rate cfg (geno_df inp) dataset_df)) (\<lambda>cr.
               (let fs1 = fs(CallRateTxt \<mapsto> Table (map snd (snd cr)))
                in bind_stage (of_result (quality_control cfg calc_hwe_pvalue (eqtl_df inp) (fst cr)))
                     (\<lambda>qc. Next \<lparr>ch_std_df = std, ch_dataset_df = dataset_df, ch_qc = qc,
                                  ch_files = fs1(GenotypeStatsTxt \<mapsto>
                                    Table (stats_table (qc_stats qc) (qc_mask qc)))\<rparr>)))))"

subsection \<open>Loading the other data\<close>

text \<open>
  \<^verbatim>\<open>max\<close> of an empty sequence raises ValueError: that is what happens when no eQTL
  passed the quality control.
\<close>

fun py_max :: "nat list \<Rightarrow> error + nat" where
  "py_max [] = Inl ValueError"
| "py_max (x # xs) = Inr (fold max xs x)"

definition skiprows :: "qc_result \<Rightarrow> nat \<Rightarrow> nat list option" where
  "skiprows qc max_index =
     (if geno_n_skipped qc > 0
      then Some (map (\<lambda>i. i + 1)
                   (filter (\<lambda>i. i \<notin> set (map fst (qc_eqtl_df qc))) [0..<max_index + 1]))
      else None)"

text \<open>
  The expression and covariate frames are loaded; a NaN in the genotype, expression or
  covariate frame ends the run by \<^verbatim>\<open>exit()\<close>. The covariate frame is transposed when
  it has as many rows as there are samples. Then all frames are validated against the
  sample-to-dataset table and the eQTL table.
\<close>

definition load_other_data ::
  "inputs \<Rightarrow> checked \<Rightarrow> (dataframe \<times> dataframe) stage" where
  "load_other_data inp ch =
     (case py_max (map fst (qc_eqtl_df (ch_qc ch))) of
        Inl e \<Rightarrow> Raise e
      | Inr max_index \<Rightarrow>
          (let expr_df = get_expr_df inp (skiprows (ch_qc ch) max_index) (max_index + 1);
               geno = qc_geno_df (ch_qc ch)
           in if isna geno then Exit None (ch_files ch)
              else if isna expr_df then Exit None (ch_files ch)
              else if isna (covs_df inp) then Exit None (ch_files ch)
              else
                (let covs = (if length (df_index (covs_df inp)) = length (df_columns geno)
                             then df_T (covs_df inp) else covs_df inp)
                 in bind_stage
                      (validate_data (ch_std_df ch) (Some (qc_eqtl_df (ch_qc ch))) (Some geno)
                         (Some expr_df) (Some covs) None (ch_files ch))
                      (\<lambda>u. Next (expr_df, covs)))))"

subsection \<open>The technical covariates\<close>

text \<open>
  The standard deviation of a column as pandas computes it, with \<open>n - 1\<close> in the
  denominator; it is NaN for fewer than two values.
\<close>

definition pd_std :: "ndarray \<Rightarrow> npfloat" where
  "pd_std col =
     (if length col < 2 then NaN
      else
        (let m = np_mean col
         in np_sqrt (np_div (np_sum (map (\<lambda>x. np_mul (np_sub x m) (np_sub x m)) col))
                            (Fin (real (length col) - 1)))))"

definition df_column :: "dataframe \<Rightarrow> nat \<Rightarrow> ndarray" where
  "df_column df j = map (\<lambda>row. row ! j) (df_rows df)"

definition load_tech_cov ::
  "dataframe option \<Rightarrow> std_frame \<Rightarrow> files \<Rightarrow> (ndarray list option \<times> string list) stage" where
  "load_tech_cov df std fs =
     (case df of
        None \<Rightarrow> Next (None, [])
      | Some d \<Rightarrow>
          (if isna d then Exit None fs
           else
             (let d1 = (if length (df_columns d) = length std then df_T d else d)
              in bind_stage (validate_data std None None None None (Some d1) fs) (\<lambda>u.
                   (let variance_mask = map (\<lambda>j. \<not> np_eq (pd_std (df_column d1 j)) (Fin 0))
                                            [0..<length (df_columns d1)]
                    in Next (Some (map (select_mask variance_mask) (df_rows d1)),
                             select_mask variance_mask (df_columns d1)))))))"

text \<open>
  Stacking two matrices side by side needs the same number of rows.
\<close>

definition np_hstack :: "ndarray list \<Rightarrow> ndarray list \<Rightarrow> error + ndarray list" where
  "np_hstack a b =
     (if length a = length b then Inr (map (\<lambda>ab. fst ab @ snd ab) (zip a b)) else Inl ValueError)"

definition hstack_opt ::
  "ndarray list option \<Rightarrow> ndarray list \<Rightarrow> error + ndarray list option" where
  "hstack_opt a b =
     (case a of
        None \<Rightarrow> Inr (Some b)
      | Some m \<Rightarrow> (case np_hstack m b of Inl e \<Rightarrow> Inl e | Inr mb \<Rightarrow> Inr (Some mb)))"

text \<open>
  \<open>dataset_m\<close> has a row for every sample and a column for every dataset. The labels
  of the columns of the correction matrices are only logged and are left out.
\<close>

definition dataset_matrix :: "std_frame \<Rightarrow> dataset_frame \<Rightarrow> ndarray list" where
  "dataset_matrix std dataset_df =
     map (\<lambda>i. map (\<lambda>d. if snd d ! i then Fin 1 else Fin 0) dataset_df) [0..<length std]"

definition construct_correct_matrices ::
  "ndarray list \<Rightarrow> nat \<Rightarrow> ndarray list option \<Rightarrow> ndarray list option
     \<Rightarrow> error + ndarray list option \<times> ndarray list option" where
  "construct_correct_matrices dataset_m n_datasets tcov_m tcov_inter_m =
     (let corr_m0 = (if n_datasets > 1 then Some (map (drop 1) dataset_m) else None);
          corr_inter_m0 = (if n_datasets > 1 then Some dataset_m else None)
      in case (case tcov_m of None \<Rightarrow> Inr corr_m0 | Some t \<Rightarrow> hstack_opt corr_m0 t) of
           Inl e \<Rightarrow> Inl e
         | Inr corr_m1 \<Rightarrow>
             (case tcov_inter_m of
                None \<Rightarrow> Inr (corr_m1, corr_inter_m0)
              | Some ti \<Rightarrow>
                  (case hstack_opt corr_m1 ti of
                     Inl e \<Rightarrow> Inl e
                   | Inr corr_m2 \<Rightarrow>
                       (case hstack_opt corr_inter_m0 ti of
                          Inl e \<Rightarrow> Inl e
                        | Inr corr_inter_m1 \<Rightarrow> Inr (corr_m2, corr_inter_m1)))))"

subsection \<open>start\<close>

text \<open>
  The matrices handed to the identification of the components. In \<open>expr_m\<close> and
  \<open>geno_m\<close> the cells whose genotype is the missing value are NaN.
\<close>

record matrices =
  eqtl_m :: "(string \<times> string) list"
  geno_m :: "ndarray list"
  expr_m :: "ndarray list"
  dataset_m :: "ndarray list"
  covs_m :: "ndarray list"
  corr_m :: "ndarray list option"
  corr_inter_m :: "ndarray list option"

definition nan_where_missing :: "config \<Rightarrow> ndarray list \<Rightarrow> ndarray list \<Rightarrow> ndarray list" where
  "nan_where_missing cfg geno m =
     map (\<lambda>gm. map (\<lambda>gx. if np_eq (fst gx) (na_value cfg) then NaN else snd gx)
                    (zip (fst gm) (snd gm)))
         (zip geno m)"

text \<open>
  What the model does not compute is a parameter of the run: the test of Hardy-Weinberg
  equilibrium, the search for the ieQTLs on the expression corrected for the given
  components, and the final mapping of a component. The arguments \<^verbatim>\<open>-min_iter\<close>,
  \<^verbatim>\<open>-max_iter\<close> and \<^verbatim>\<open>-tol\<close> reach the run in the optimiser record; its number of
  samples is set from the sample-to-dataset table.
\<close>

record environment =
  calc_hwe_pvalue :: hwe_test
  ieqtl_mapper :: "matrices \<Rightarrow> ndarray list \<Rightarrow> mapper"
  pic_mapper :: "matrices \<Rightarrow> nat \<Rightarrow> ndarray \<Rightarrow> nat"

definition prepare ::
  "config \<Rightarrow> inputs \<Rightarrow> checked \<Rightarrow> dataframe \<times> dataframe \<Rightarrow> matrices stage" where
  "prepare cfg inp ch loaded =
     (let geno = df_rows (qc_geno_df (ch_qc ch));
          dsm = dataset_matrix (ch_std_df ch) (ch_dataset_df ch)
      in bind_stage (load_tech_cov (tcov_df inp) (ch_std_df ch) (ch_files ch)) (\<lambda>tcov.
         bind_stage (load_tech_cov (tcov_inter_df inp) (ch_std_df ch) (ch_files ch)) (\<lambda>tcov_inter.
         bind_stage (of_result (construct_correct_matrices dsm (length (ch_dataset_df ch))
                                  (fst tcov) (fst tcov_inter))) (\<lambda>corr.
           Next \<lparr>eqtl_m = map (\<lambda>r. (SNPName (snd r), ProbeName (snd r))) (qc_eqtl_df (ch_qc ch)),
                 geno_m = nan_where_missing cfg geno geno,
                 expr_m = nan_where_missing cfg geno (df_rows (fst loaded)),
                 dataset_m = dsm,
                 covs_m = df_rows (snd loaded),
                 corr_m = fst corr, corr_inter_m = snd corr\<rparr>))))"

definition start ::
  "config \<Rightarrow> environment \<Rightarrow> optimizer \<Rightarrow> inputs \<Rightarrow> files \<Rightarrow> files stage" where
  "start cfg env io inp fs =
     bind_stage (check_genotypes cfg (calc_hwe_pvalue env) inp fs) (\<lambda>ch.
     bind_stage (load_other_data inp ch) (\<lambda>loaded.
     bind_stage (prepare cfg inp ch loaded) (\<lambda>m.
       run_components cfg (io\<lparr>n_samples := length (ch_std_df ch)\<rparr>)
         (ieqtl_mapper env m) (pic_mapper env m)
         (zip (df_index (snd loaded)) (df_rows (snd loaded))) (ch_files ch))))"

section \<open>fast\_interaction\_mapper.py\<close>



section \<open>cmd\_line\_arguments.py\<close>

subsection \<open>The arguments\<close>






subsection \<open>parse\_args\<close>













subsection \<open>data.py: the sample-to-dataset table\<close>


section \<open>Example runs\<close>

text \<open>
  Three candidate covariates on three samples. The mapper reports 12, 47 and 9
  significant ieQTLs for them, with at least 3, 5 and 0 ieQTLs per sample.
\<close>

definition example_ieqtl :: "string \<Rightarrow> ndarray \<Rightarrow> ieqtl" where
  "example_ieqtl name target =
     \<lparr>ieqtl_id = name,
      coef_a = map (\<lambda>t. Fin (- 1)) target,
      coef_b = map (np_mul (Fin 2)) target,
      calc_log_likelihood = (\<lambda>v. Fin (- 1))\<rparr>"

definition example_ieqtls :: "nat \<Rightarrow> ndarray \<Rightarrow> ieqtl list" where
  "example_ieqtls n target =
     map (\<lambda>i. example_ieqtl (replicate (Suc i) CHR ''q'') target) [0..<n]"

definition three_candidates :: "(string \<times> ndarray) list" where
  "three_candidates =
     [(''c1'', [Fin 1, Fin 2, Fin 3]), (''c2'', [Fin 1, Fin 0, Fin 3]),
      (''c3'', [Fin 3, Fin 2, Fin 3])]"

definition three_candidates_mapper :: mapper where
  "three_candidates_mapper label c =
     (if label = Some ''c1'' then (12, [3, 4, 5], example_ieqtls 12 c)
      else if label = Some ''c2'' then (47, [5, 6, 7], example_ieqtls 47 c)
      else (9, [0, 1, 2], example_ieqtls 9 c))"

definition example_optimizer :: optimizer where
  "example_optimizer =
     \<lparr>min_iter = 3, max_iter = 10, tol = Fin (1 / 1000), n_samples = 3,
      uninit = [Fin 0, Fin 0, Fin 0]\<rparr>"


text \<open>
  A run that oscillates. There is one candidate, \<open>oscillation_seed\<close>. The optimised
  contexts alternate between two directions: the contexts after iterations 0 and 2 are
  \<open>(0, 1, 2)\<close> and \<open>(0, 2, 4)\<close>, those after iterations 1 and 3 are \<open>(0, 1, 0)\<close> and
  \<open>(0, 2, 0)\<close>. The mapper finds 2, 2, 2 and 3 ieQTLs in iterations 0 to 3.
\<close>

definition oscillation_seed :: ndarray where
  "oscillation_seed = [Fin 2, Fin 1, Fin 0]"

definition oscillating_mapper :: mapper where
  "oscillating_mapper label c =
     (if c = oscillation_seed then
        (2, [2, 2, 2], map (\<lambda>q. example_ieqtl q [Fin 0, Fin 1, Fin 2]) [''q1'', ''q2''])
      else if c = [Fin 0, Fin 1, Fin 2] then
        (2, [2, 2, 2], map (\<lambda>q. example_ieqtl q [Fin 0, Fin 1, Fin 0]) [''q1'', ''q2''])
      else if c = [Fin 0, Fin 1, Fin 0] then
        (2, [2, 2, 2], map (\<lambda>q. example_ieqtl q [Fin 0, Fin 2, Fin 4]) [''q1'', ''q2''])
      else if c = [Fin 0, Fin 2, Fin 4] then
        (3, [3, 3, 3], map (\<lambda>q. example_ieqtl q [Fin 0, Fin 2, Fin 0]) [''q1'', ''q2'', ''q3''])
      else (0, [0, 0, 0], []))"

text \<open>
  A state at the start of iteration 3 in which the previous iteration had 5 ieQTLs.
\<close>

definition oscillation_state :: opt_state where
  "oscillation_state =
     \<lparr>context_a = Some [Fin 0, Fin 2, Fin 4], n_hits = 5, stop = True, cov = Some ''c1'',
      prev_included_ieqtls = (5, {''q1'', ''q2'', ''q3'', ''q4'', ''q5''}),
      n_iterations_performed = 3,
      info_m = (\<lambda>i. [Fin 0, Fin 0, Fin 0]),
      n_hits_per_sample_m = (\<lambda>i. [Fin 0, Fin 0, Fin 0]),
      iterations_m = (\<lambda>i. if i = 0 then [Fin 2, Fin 1, Fin 0]
                           else if i = 1 then [Fin 0, Fin 1, Fin 2]
                           else if i = 2 then [Fin 0, Fin 1, Fin 0]
                           else if i = 3 then [Fin 0, Fin 2, Fin 4]
                           else [Fin 0, Fin 0, Fin 0]),
      covariate_selection = None\<rparr>"


text \<open>
  The defaults of the command line, and a run of two components with
  \<^verbatim>\<open>-force_continue\<close> in which the mapper finds no ieQTL at all.
\<close>

definition default_config :: config where
  "default_config =
     \<lparr>genotype_na = - 1, min_dataset_sample_size = 30, call_rate = Fin (95 / 100),
      hw_pval = Fin (1 / 10000), maf = Fin (1 / 100), mgs = 2, n_components = 10,
      force_continue = False\<rparr>"

definition forced_config :: config where
  "forced_config = default_config\<lparr>n_components := 2, force_continue := True\<rparr>"

definition no_hits_mapper :: mapper where
  "no_hits_mapper label c = (0, [0, 0, 0], [])"


text \<open>The single candidate covariate of that run.\<close>

definition one_candidate :: "(string \<times> ndarray) list" where
  "one_candidate = [(''c1'', [Fin 1, Fin 2, Fin 3])]"

text \<open>
  An optimiser that stops after two iterations: on the oscillating run it returns the
  context of iteration 1 with the stop flag still set.
\<close>

definition short_optimizer :: optimizer where
  "short_optimizer = example_optimizer\<lparr>max_iter := 2\<rparr>"

text \<open>
  Three eQTLs on six samples. After rounding, the first row of genotypes has two samples
  in every genotype group, the second has a single heterozygote, and the third is
  missing everywhere. \<open>example_hwe\<close> gives the p-values of the exact test for the
  counts of the first two rows, \<open>37 / 77\<close> and \<open>5 / 33\<close>.
\<close>

definition example_geno :: dataframe where
  "example_geno =
     \<lparr>df_index = [''snp1'', ''snp2'', ''snp3''],
      df_columns = [''s1'', ''s2'', ''s3'', ''s4'', ''s5'', ''s6''],
      df_rows = [[Fin (1 / 5), Fin 0, Fin 1, Fin 1, Fin 2, Fin (9 / 5)],
                 [Fin 0, Fin 0, Fin 0, Fin 1, Fin 2, Fin 2],
                 [Fin (- 1), Fin (- 1), Fin (- 1), Fin (- 1), Fin (- 1), Fin (- 1)]]\<rparr>"

definition example_eqtls :: eqtl_frame where
  "example_eqtls =
     [(0, \<lparr>SNPName = ''snp1'', ProbeName = ''gene1'', FDR = Fin (1 / 2)\<rparr>),
      (1, \<lparr>SNPName = ''snp2'', ProbeName = ''gene2'', FDR = Fin (1 / 100)\<rparr>),
      (2, \<lparr>SNPName = ''snp3'', ProbeName = ''gene3'', FDR = Fin (1 / 1000)\<rparr>)]"

definition example_hwe :: hwe_test where
  "example_hwe obs_hets obs_hom1 obs_hom2 =
     Inr (map (\<lambda>c. if c = (2, 2, 2) then Fin (37 / 77)
                    else if c = (1, 3, 2) then Fin (5 / 33) else Fin 1)
              (zip obs_hets (zip obs_hom1 obs_hom2)))"

text \<open>
  A run on these eQTLs without a sample-to-dataset table, with one covariate. The
  expression frame holds the gene of the one eQTL that passes the quality control. The
  mapper of the run finds no ieQTL.
\<close>

definition example_inputs :: inputs where
  "example_inputs =
     \<lparr>eqtl_df = example_eqtls, geno_df = example_geno, std_df = None,
      get_expr_df = (\<lambda>skip nrows.
         \<lparr>df_index = [''gene1''],
          df_columns = [''s1'', ''s2'', ''s3'', ''s4'', ''s5'', ''s6''],
          df_rows = [[Fin 1, Fin 2, Fin 3, Fin 4, Fin 5, Fin 6]]\<rparr>),
      covs_df =
         \<lparr>df_index = [''cov1''],
          df_columns = [''s1'', ''s2'', ''s3'', ''s4'', ''s5'', ''s6''],
          df_rows = [[Fin 6, Fin 5, Fin 4, Fin 3, Fin 2, Fin 1]]\<rparr>,
      tcov_df = None, tcov_inter_df = None\<rparr>"

definition example_environment :: environment where
  "example_environment =
     \<lparr>calc_hwe_pvalue = example_hwe,
      ieqtl_mapper = (\<lambda>m pics. no_hits_mapper),
      pic_mapper = (\<lambda>m i pic. 0)\<rparr>"

text \<open>
  Two variants of the run: one with a sample-to-dataset table whose samples are not the
  columns of the genotype frame, one with a NaN in the covariate frame.
\<close>

definition mismatched_inputs :: inputs where
  "mismatched_inputs =
     example_inputs\<lparr>std_df := Some [(''t1'', ''d1''), (''t2'', ''d1''), (''t3'', ''d1''),
                                     (''t4'', ''d1''), (''t5'', ''d1''), (''t6'', ''d1'')]\<rparr>"

definition nan_inputs :: inputs where
  "nan_inputs =
     example_inputs\<lparr>covs_df :=
       \<lparr>df_index = [''cov1''],
        df_columns = [''s1'', ''s2'', ''s3'', ''s4'', ''s5'', ''s6''],
        df_rows = [[Fin 6, Fin 5, NaN, Fin 3, Fin 2, Fin 1]]\<rparr>\<rparr>"

section \<open>Properties of statistics.py\<close>

lemma np_eq_zero_iff: "np_eq x (Fin 0) \<longleftrightarrow> x = Fin 0"
  by (auto simp: np_eq_def)

lemma np_div_NaN_right: "np_div x NaN = NaN"
  by (cases x) simp_all

lemma np_mul_two_NaN: "np_mul (Fin 2) NaN = NaN"
  by simp

lemma zero_to_nan_length: "length (zero_to_nan xs) = length xs"
  by (simp add: zero_to_nan_def)

lemma zero_to_nan_nth:
  "i < length xs \<Longrightarrow> zero_to_nan xs ! i = (if xs ! i = Fin 0 then NaN else xs ! i)"
  by (simp add: zero_to_nan_def np_eq_zero_iff)

text \<open>
  C10. calc\_vertex\_xpos mutates its first argument in place: after the call the caller's
  array \<open>a\<close> holds NaN at every position where it held 0 and is otherwise unchanged, no
  other array of the store is touched (unless it is \<open>a\<close> itself), and for two arrays of
  the same length the returned vertex is \<open>-b / (2 * a)\<close> element-wise, NaN wherever
  \<open>a\<close> was 0.
\<close>

theorem calc_vertex_xpos_mutates_a:
  "snd (calc_vertex_xpos a b h) a = map (\<lambda>x. if x = Fin 0 then NaN else x) (h a)
   \<and> (\<forall>p. p \<noteq> a \<longrightarrow> snd (calc_vertex_xpos a b h) p = h p)
   \<and> (length (h a) = length (h b) \<longrightarrow>
        (\<exists>v. fst (calc_vertex_xpos a b h) = Inr v \<and> length v = length (h a)
           \<and> (\<forall>i < length v. v ! i =
                 (if h a ! i = Fin 0 then NaN
                  else np_div (np_neg (h b ! i)) (np_mul (Fin 2) (h a ! i))))))"
proof (intro conjI allI impI)
  show "snd (calc_vertex_xpos a b h) a = map (\<lambda>x. if x = Fin 0 then NaN else x) (h a)"
    by (simp add: calc_vertex_xpos_def Let_def zero_to_nan_def np_eq_zero_iff)
next
  fix p assume "p \<noteq> a"
  then show "snd (calc_vertex_xpos a b h) p = h p"
    by (simp add: calc_vertex_xpos_def Let_def)
next
  assume len: "length (h a) = length (h b)"
  define h1 where "h1 = h(a := zero_to_nan (h a))"
  define v where "v = map2 np_div (map np_neg (h1 b)) (map (np_mul (Fin 2)) (h1 a))"
  have h1a: "h1 a = zero_to_nan (h a)"
    by (simp add: h1_def)
  have h1b: "h1 b = (if b = a then zero_to_nan (h a) else h b)"
    by (simp add: h1_def)
  have lb: "length (h1 b) = length (h1 a)"
  proof (cases "b = a")
    case True
    then show ?thesis by simp
  next
    case False
    then have "length (h1 b) = length (h b)"
      by (simp add: h1_def)
    also have "\<dots> = length (h a)"
      by (rule len [symmetric])
    also have "\<dots> = length (h1 a)"
      unfolding h1a by (rule zero_to_nan_length [symmetric])
    finally show ?thesis .
  qed
  have res: "fst (calc_vertex_xpos a b h) = Inr v"
    using lb unfolding v_def h1_def by (simp add: calc_vertex_xpos_def Let_def np_binop_def)
  have la: "length (h1 a) = length (h a)"
    unfolding h1a by (rule zero_to_nan_length)
  have lv: "length v = length (h a)"
    unfolding v_def using lb la by simp
  have cells: "v ! i = (if h a ! i = Fin 0 then NaN
                  else np_div (np_neg (h b ! i)) (np_mul (Fin 2) (h a ! i)))"
    if "i < length v" for i
  proof -
    have ia: "i < length (h a)"
      using that lv by simp
    have ib: "i < length (h b)"
      using ia len by simp
    have vi: "v ! i = np_div (np_neg (h1 b ! i)) (np_mul (Fin 2) (h1 a ! i))"
      unfolding v_def using ia lb la by simp
    have ai: "h1 a ! i = (if h a ! i = Fin 0 then NaN else h a ! i)"
      unfolding h1a using ia by (rule zero_to_nan_nth)
    show ?thesis
    proof (cases "b = a")
      case True
      then have "h1 b ! i = h1 a ! i"
        by (simp add: h1_def)
      with True vi ai show ?thesis
        by (simp add: np_div_NaN_right)
    next
      case False
      then have "h1 b ! i = h b ! i"
        by (simp add: h1_def)
      with vi ai show ?thesis
        by (simp add: np_div_NaN_right)
    qed
  qed
  show "\<exists>v. fst (calc_vertex_xpos a b h) = Inr v \<and> length v = length (h a)
           \<and> (\<forall>i < length v. v ! i =
                 (if h a ! i = Fin 0 then NaN
                  else np_div (np_neg (h b ! i)) (np_mul (Fin 2) (h a ! i))))"
    using res lv cells by blast
qed

theorem calc_vertex_xpos_mutates_a_witness:
  "length [Fin 0, Fin 2] = length [Fin 4, Fin 4]
   \<and> snd (calc_vertex_xpos 0 1 (\<lambda>p. if p = 0 then [Fin 0, Fin 2] else [Fin 4, Fin 4])) 0
       = [NaN, Fin 2]
   \<and> fst (calc_vertex_xpos 0 1 (\<lambda>p. if p = 0 then [Fin 0, Fin 2] else [Fin 4, Fin 4]))
       = Inr [NaN, Fin (- 1)]"
  using calc_vertex_xpos_mutates_a
    [of 0 1 "\<lambda>p. if p = 0 then [Fin 0, Fin 2] else [Fin 4, Fin 4]"]
  by (simp add: calc_vertex_xpos_def Let_def zero_to_nan_def np_eq_def np_binop_def)






section \<open>Properties of inter\_optimizer.py\<close>

subsection \<open>Choosing the covariate\<close>

lemma np_min_Cons: "np_min (x # xs) = Inr (Min (set (x # xs)))"
  unfolding Min.set_eq_fold by simp

lemma np_min_Min: "xs \<noteq> [] \<Longrightarrow> np_min xs = Inr (Min (set xs))"
  by (cases xs) (simp, simp only: np_min_Cons)

lemma lex_step:
  fixes hb mb hc mc hd md :: nat
  assumes "hd < hb \<or> (hd = hb \<and> md \<le> mb)"
      and "hb < hc \<or> (hc = hb \<and> mb < mc)"
  shows "hd < hc \<or> (hd = hc \<and> md \<le> mc)"
  using assms by auto

lemma lex_keep:
  fixes hb mb hc mc :: nat
  assumes "\<not> (hb < hc \<or> (hc = hb \<and> mb < mc))"
  shows "hc < hb \<or> (hc = hb \<and> mc \<le> mb)"
  using assms by auto

lemma select_step_best:
  assumes ne: "cand_hits_per_sample find_ieqtls c \<noteq> []"
      and inv: "best_so_far find_ieqtls seen sel"
  shows "\<exists>sel'. select_step find_ieqtls sel c = Inr sel'
            \<and> best_so_far find_ieqtls (seen @ [c]) sel'"
proof -
  obtain name cova_a where c: "c = (name, cova_a)"
    by (cases c)
  obtain h ps qs where f: "find_ieqtls (Some name) cova_a = (h, ps, qs)"
    by (cases "find_ieqtls (Some name) cova_a")
  have fstc: "fst c = name" and sndc: "snd c = cova_a"
    using c by simp_all
  have hc: "cand_hits find_ieqtls c = h"
    by (simp add: cand_hits_def c f)
  have psne: "ps \<noteq> []"
    using ne by (simp add: cand_hits_per_sample_def c f)
  define m where "m = cand_min find_ieqtls c"
  have mc: "np_min ps = Inr m"
    using psne by (simp add: np_min_Min cand_min_def cand_hits_per_sample_def c f m_def)
  define sel1 where "sel1 = sel\<lparr>hits_per_cov_data := hits_per_cov_data sel @ [(name, h)]\<rparr>"
  define taken where "taken \<longleftrightarrow> 2 \<le> m \<and> (sel_n_hits sel < h \<or> (h = sel_n_hits sel \<and> sel_min_n_hits_per_sample sel < m))"
  define sel2 where "sel2 = sel1\<lparr>sel_cov := Some name, sel_context_a := Some cova_a, sel_n_hits := h,
       sel_min_n_hits_per_sample := m, sel_n_hits_per_sample_a := ps, sel_ieqtls := qs\<rparr>"
  have step: "select_step find_ieqtls sel c = Inr (if taken then sel2 else sel1)"
    by (auto simp: select_step_def c f mc Let_def sel1_def sel2_def taken_def)
  have old_data: "hits_per_cov_data sel = map (\<lambda>c. (fst c, cand_hits find_ieqtls c)) seen"
    using inv by (simp add: best_so_far_def)
  have f1: "sel_cov sel1 = sel_cov sel" "sel_context_a sel1 = sel_context_a sel"
    "sel_n_hits sel1 = sel_n_hits sel" "sel_min_n_hits_per_sample sel1 = sel_min_n_hits_per_sample sel"
    "hits_per_cov_data sel1 = map (\<lambda>c. (fst c, cand_hits find_ieqtls c)) (seen @ [c])"
    by (simp_all add: sel1_def old_data fstc hc)
  have f2: "sel_cov sel2 = Some name" "sel_context_a sel2 = Some cova_a"
    "sel_n_hits sel2 = h" "sel_min_n_hits_per_sample sel2 = m"
    "hits_per_cov_data sel2 = map (\<lambda>c. (fst c, cand_hits find_ieqtls c)) (seen @ [c])"
    by (simp_all add: sel2_def sel1_def old_data fstc hc)
  have "best_so_far find_ieqtls (seen @ [c]) (if taken then sel2 else sel1)"
  proof (cases taken)
    case True
    then have m2: "2 \<le> m"
      and better: "sel_n_hits sel < h \<or> (h = sel_n_hits sel \<and> sel_min_n_hits_per_sample sel < m)"
      by (simp_all add: taken_def)
    have rest: "cand_hits find_ieqtls d < h \<or> (cand_hits find_ieqtls d = h \<and> cand_min find_ieqtls d \<le> m)"
      if d: "d \<in> set seen" and e: "2 \<le> cand_min find_ieqtls d" for d
    proof (cases "sel_cov sel")
      case None
      with inv d have "cand_min find_ieqtls d < 2"
        by (simp add: best_so_far_def)
      with e show ?thesis by simp
    next
      case (Some b)
      with inv obtain cb where cb: "sel_n_hits sel = cand_hits find_ieqtls cb"
          "sel_min_n_hits_per_sample sel = cand_min find_ieqtls cb"
          "\<forall>d \<in> set seen. 2 \<le> cand_min find_ieqtls d \<longrightarrow>
                      cand_hits find_ieqtls d < cand_hits find_ieqtls cb
                      \<or> (cand_hits find_ieqtls d = cand_hits find_ieqtls cb
                         \<and> cand_min find_ieqtls d \<le> cand_min find_ieqtls cb)"
        by (auto simp: best_so_far_def)
      from cb(3) d e have "cand_hits find_ieqtls d < sel_n_hits sel
          \<or> (cand_hits find_ieqtls d = sel_n_hits sel
              \<and> cand_min find_ieqtls d \<le> sel_min_n_hits_per_sample sel)"
        unfolding cb(1,2) by blast
      then show ?thesis
        using better by (rule lex_step)
    qed
    have all: "\<forall>d \<in> set (seen @ [c]). 2 \<le> cand_min find_ieqtls d \<longrightarrow>
                      cand_hits find_ieqtls d < cand_hits find_ieqtls c
                      \<or> (cand_hits find_ieqtls d = cand_hits find_ieqtls c
                         \<and> cand_min find_ieqtls d \<le> cand_min find_ieqtls c)"
    proof (intro ballI impI)
      fix d assume d: "d \<in> set (seen @ [c])" and e: "2 \<le> cand_min find_ieqtls d"
      show "cand_hits find_ieqtls d < cand_hits find_ieqtls c
                      \<or> (cand_hits find_ieqtls d = cand_hits find_ieqtls c
                         \<and> cand_min find_ieqtls d \<le> cand_min find_ieqtls c)"
      proof (cases "d = c")
        case True
        then show ?thesis by simp
      next
        case False
        with d have "d \<in> set seen" by simp
        from rest [OF this e] show ?thesis
          unfolding hc m_def .
      qed
    qed
    have "c \<in> set (seen @ [c])" by simp
    moreover have "fst c = name \<and> sel_context_a sel2 = Some (snd c)
               \<and> sel_n_hits sel2 = cand_hits find_ieqtls c
               \<and> sel_min_n_hits_per_sample sel2 = cand_min find_ieqtls c
               \<and> 2 \<le> cand_min find_ieqtls c"
      using m2 unfolding f2 hc fstc sndc m_def by simp
    ultimately have "\<exists>c' \<in> set (seen @ [c]). fst c' = name \<and> sel_context_a sel2 = Some (snd c')
               \<and> sel_n_hits sel2 = cand_hits find_ieqtls c'
               \<and> sel_min_n_hits_per_sample sel2 = cand_min find_ieqtls c'
               \<and> 2 \<le> cand_min find_ieqtls c'
               \<and> (\<forall>d \<in> set (seen @ [c]). 2 \<le> cand_min find_ieqtls d \<longrightarrow>
                      cand_hits find_ieqtls d < cand_hits find_ieqtls c'
                      \<or> (cand_hits find_ieqtls d = cand_hits find_ieqtls c'
                         \<and> cand_min find_ieqtls d \<le> cand_min find_ieqtls c'))"
      using all by blast
    then have "best_so_far find_ieqtls (seen @ [c]) sel2"
      unfolding best_so_far_def f2 by simp
    with True show ?thesis by simp
  next
    case False
    have "best_so_far find_ieqtls (seen @ [c]) sel1"
    proof (cases "sel_cov sel")
      case None
      with inv have z: "sel_n_hits sel = 0" "sel_min_n_hits_per_sample sel = 0"
        and low: "\<forall>c \<in> set seen. cand_min find_ieqtls c < 2"
        by (simp_all add: best_so_far_def)
      from False z have "m < 2"
        unfolding taken_def by auto
      with low have "\<forall>d \<in> set (seen @ [c]). cand_min find_ieqtls d < 2"
        by (simp add: m_def)
      with None z show ?thesis
        unfolding best_so_far_def f1 by simp
    next
      case (Some b)
      with inv obtain cb where cbin: "cb \<in> set seen" and cb: "fst cb = b"
          "sel_context_a sel = Some (snd cb)"
          "sel_n_hits sel = cand_hits find_ieqtls cb"
          "sel_min_n_hits_per_sample sel = cand_min find_ieqtls cb"
          "2 \<le> cand_min find_ieqtls cb"
          and cbmax: "\<forall>d \<in> set seen. 2 \<le> cand_min find_ieqtls d \<longrightarrow>
                      cand_hits find_ieqtls d < cand_hits find_ieqtls cb
                      \<or> (cand_hits find_ieqtls d = cand_hits find_ieqtls cb
                         \<and> cand_min find_ieqtls d \<le> cand_min find_ieqtls cb)"
        by (auto simp: best_so_far_def)
      have cnew: "cand_hits find_ieqtls c < cand_hits find_ieqtls cb
                      \<or> (cand_hits find_ieqtls c = cand_hits find_ieqtls cb
                         \<and> cand_min find_ieqtls c \<le> cand_min find_ieqtls cb)"
        if e: "2 \<le> cand_min find_ieqtls c"
      proof -
        from False e have "\<not> (sel_n_hits sel < h \<or> (h = sel_n_hits sel \<and> sel_min_n_hits_per_sample sel < m))"
          unfolding taken_def m_def by simp
        then have "h < sel_n_hits sel \<or> (h = sel_n_hits sel \<and> m \<le> sel_min_n_hits_per_sample sel)"
          by (rule lex_keep)
        then show ?thesis
          unfolding cb hc m_def by simp
      qed
      have all: "\<forall>d \<in> set (seen @ [c]). 2 \<le> cand_min find_ieqtls d \<longrightarrow>
                      cand_hits find_ieqtls d < cand_hits find_ieqtls cb
                      \<or> (cand_hits find_ieqtls d = cand_hits find_ieqtls cb
                         \<and> cand_min find_ieqtls d \<le> cand_min find_ieqtls cb)"
        using cbmax cnew by auto
      have "cb \<in> set (seen @ [c])"
        using cbin by simp
      then have "\<exists>c' \<in> set (seen @ [c]). fst c' = b \<and> sel_context_a sel = Some (snd c')
               \<and> sel_n_hits sel = cand_hits find_ieqtls c'
               \<and> sel_min_n_hits_per_sample sel = cand_min find_ieqtls c'
               \<and> 2 \<le> cand_min find_ieqtls c'
               \<and> (\<forall>d \<in> set (seen @ [c]). 2 \<le> cand_min find_ieqtls d \<longrightarrow>
                      cand_hits find_ieqtls d < cand_hits find_ieqtls c'
                      \<or> (cand_hits find_ieqtls d = cand_hits find_ieqtls c'
                         \<and> cand_min find_ieqtls d \<le> cand_min find_ieqtls c'))"
        using cb all by blast
      with Some show ?thesis
        unfolding best_so_far_def f1 by simp
    qed
    with False show ?thesis by simp
  qed
  with step show ?thesis by simp
qed


lemma select_covariate_best:
  assumes "\<forall>c \<in> set cs. cand_hits_per_sample find_ieqtls c \<noteq> []"
      and "best_so_far find_ieqtls seen sel"
  shows "\<exists>sel'. select_covariate find_ieqtls cs sel = Inr sel'
            \<and> best_so_far find_ieqtls (seen @ cs) sel'"
  using assms
proof (induction cs arbitrary: seen sel)
  case Nil
  then show ?case by simp
next
  case (Cons c cs)
  from Cons.prems have ne: "cand_hits_per_sample find_ieqtls c \<noteq> []"
    and rest: "\<forall>c \<in> set cs. cand_hits_per_sample find_ieqtls c \<noteq> []"
    by simp_all
  from select_step_best [OF ne Cons.prems(2)]
  obtain sel1 where s1: "select_step find_ieqtls sel c = Inr sel1"
    and b1: "best_so_far find_ieqtls (seen @ [c]) sel1"
    by blast
  from Cons.IH [OF rest b1]
  obtain sel2 where s2: "select_covariate find_ieqtls cs sel1 = Inr sel2"
    and b2: "best_so_far find_ieqtls ((seen @ [c]) @ cs) sel2"
    by blast
  from s1 s2 b2 show ?case by simp
qed

lemma best_so_far_initial:
  "best_so_far find_ieqtls [] (initial_selection io (initial_state io))"
  by (simp add: best_so_far_def initial_selection_def initial_state_def)


text \<open>
  C7. When more than one candidate covariate is supplied, iteration 0 of process runs the
  mapper on every candidate and takes the result of the loop over the candidates. That
  loop lists every candidate with its number of significant ieQTLs; it selects nothing
  exactly when no candidate has at least two ieQTLs for every sample; and a selected
  candidate has at least two ieQTLs for every sample and, among the candidates that do,
  the largest number of significant ieQTLs, ties going to the larger minimum per sample.
  On candidates with 12, 47 and 9 ieQTLs and minima 3, 5 and 0 the second is selected.
\<close>

theorem candidate_selection:
  assumes many: "1 < length covs"
      and samples: "\<forall>c \<in> set covs. cand_hits_per_sample find_ieqtls c \<noteq> []"
  shows "\<exists>sel. select_covariate find_ieqtls covs (initial_selection io (initial_state io)) = Inr sel
     \<and> process_iteration io find_ieqtls covs 0 (initial_state io)
         = (if sel_cov sel = None
            then Inr (Break ((initial_state io)\<lparr>context_a := None, stop := False\<rparr>))
            else optimize_step io 0
                   ((initial_state io)\<lparr>cov := sel_cov sel, context_a := sel_context_a sel,
                        n_hits := sel_n_hits sel,
                        covariate_selection := Some (hits_per_cov_data sel)\<rparr>)
                   (sel_min_n_hits_per_sample sel) (sel_n_hits_per_sample_a sel)
                   (sel_ieqtls sel))
     \<and> hits_per_cov_data sel = map (\<lambda>c. (fst c, cand_hits find_ieqtls c)) covs
     \<and> (sel_cov sel = None \<longleftrightarrow> (\<forall>c \<in> set covs. cand_min find_ieqtls c < 2))
     \<and> (\<forall>name. sel_cov sel = Some name \<longrightarrow>
          (\<exists>c \<in> set covs. fst c = name \<and> sel_context_a sel = Some (snd c)
             \<and> sel_n_hits sel = cand_hits find_ieqtls c
             \<and> 2 \<le> cand_min find_ieqtls c
             \<and> (\<forall>d \<in> set covs. 2 \<le> cand_min find_ieqtls d \<longrightarrow>
                    cand_hits find_ieqtls d < cand_hits find_ieqtls c
                    \<or> (cand_hits find_ieqtls d = cand_hits find_ieqtls c
                       \<and> cand_min find_ieqtls d \<le> cand_min find_ieqtls c))))"
proof -
  from select_covariate_best [OF samples best_so_far_initial]
  obtain sel where sel: "select_covariate find_ieqtls covs (initial_selection io (initial_state io)) = Inr sel"
    and best: "best_so_far find_ieqtls covs sel"
    by auto
  have ctx: "context_a (initial_state io) = None"
    by (simp add: initial_state_def)
  have iter: "process_iteration io find_ieqtls covs 0 (initial_state io)
         = (if sel_cov sel = None
            then Inr (Break ((initial_state io)\<lparr>context_a := None, stop := False\<rparr>))
            else optimize_step io 0
                   ((initial_state io)\<lparr>cov := sel_cov sel, context_a := sel_context_a sel,
                        n_hits := sel_n_hits sel,
                        covariate_selection := Some (hits_per_cov_data sel)\<rparr>)
                   (sel_min_n_hits_per_sample sel) (sel_n_hits_per_sample_a sel)
                   (sel_ieqtls sel))"
  proof -
    have ne: "length covs \<noteq> 1"
      using many by simp
    show ?thesis
      unfolding process_iteration_def Let_def using ne by (simp add: ctx sel)
  qed
  have data: "hits_per_cov_data sel = map (\<lambda>c. (fst c, cand_hits find_ieqtls c)) covs"
    using best by (simp add: best_so_far_def)
  have none: "sel_cov sel = None \<longleftrightarrow> (\<forall>c \<in> set covs. cand_min find_ieqtls c < 2)"
  proof (cases "sel_cov sel")
    case None
    with best show ?thesis by (simp add: best_so_far_def)
  next
    case (Some b)
    with best obtain c where c: "c \<in> set covs" "2 \<le> cand_min find_ieqtls c"
      unfolding best_so_far_def by (simp) blast
    have "\<not> (\<forall>c \<in> set covs. cand_min find_ieqtls c < 2)"
    proof
      assume "\<forall>c \<in> set covs. cand_min find_ieqtls c < 2"
      with c(1) have "cand_min find_ieqtls c < 2" by blast
      with c(2) show False by simp
    qed
    with Some show ?thesis by simp
  qed
  have some: "\<forall>name. sel_cov sel = Some name \<longrightarrow>
          (\<exists>c \<in> set covs. fst c = name \<and> sel_context_a sel = Some (snd c)
             \<and> sel_n_hits sel = cand_hits find_ieqtls c
             \<and> 2 \<le> cand_min find_ieqtls c
             \<and> (\<forall>d \<in> set covs. 2 \<le> cand_min find_ieqtls d \<longrightarrow>
                    cand_hits find_ieqtls d < cand_hits find_ieqtls c
                    \<or> (cand_hits find_ieqtls d = cand_hits find_ieqtls c
                       \<and> cand_min find_ieqtls d \<le> cand_min find_ieqtls c)))"
  proof (intro allI impI)
    fix name assume "sel_cov sel = Some name"
    with best obtain c where "c \<in> set covs" "fst c = name" "sel_context_a sel = Some (snd c)"
      "sel_n_hits sel = cand_hits find_ieqtls c" "2 \<le> cand_min find_ieqtls c"
      "\<forall>d \<in> set covs. 2 \<le> cand_min find_ieqtls d \<longrightarrow>
                    cand_hits find_ieqtls d < cand_hits find_ieqtls c
                    \<or> (cand_hits find_ieqtls d = cand_hits find_ieqtls c
                       \<and> cand_min find_ieqtls d \<le> cand_min find_ieqtls c)"
      unfolding best_so_far_def by (simp) blast
    then show "\<exists>c \<in> set covs. fst c = name \<and> sel_context_a sel = Some (snd c)
             \<and> sel_n_hits sel = cand_hits find_ieqtls c
             \<and> 2 \<le> cand_min find_ieqtls c
             \<and> (\<forall>d \<in> set covs. 2 \<le> cand_min find_ieqtls d \<longrightarrow>
                    cand_hits find_ieqtls d < cand_hits find_ieqtls c
                    \<or> (cand_hits find_ieqtls d = cand_hits find_ieqtls c
                       \<and> cand_min find_ieqtls d \<le> cand_min find_ieqtls c))"
      by (intro bexI [of _ c] conjI)
  qed
  show ?thesis
    by (rule exI [of _ sel]) (intro conjI sel iter data none some)
qed

lemma three_candidates_samples:
  "\<forall>c \<in> set three_candidates. cand_hits_per_sample three_candidates_mapper c \<noteq> []"
  by (simp add: three_candidates_def cand_hits_per_sample_def three_candidates_mapper_def)

lemma three_candidates_values:
  "cand_hits three_candidates_mapper (''c1'', x) = 12"
  "cand_hits three_candidates_mapper (''c2'', x) = 47"
  "cand_hits three_candidates_mapper (''c3'', x) = 9"
  "cand_min three_candidates_mapper (''c1'', x) = 3"
  "cand_min three_candidates_mapper (''c2'', x) = 5"
  "cand_min three_candidates_mapper (''c3'', x) = 0"
  by (simp_all add: cand_hits_def cand_min_def cand_hits_per_sample_def three_candidates_mapper_def)


lemma three_candidates_selected:
  "select_covariate three_candidates_mapper three_candidates
      (initial_selection example_optimizer (initial_state example_optimizer))
   = Inr \<lparr>sel_cov = Some ''c2'', sel_context_a = Some [Fin 1, Fin 0, Fin 3], sel_n_hits = 47,
           sel_min_n_hits_per_sample = 5, sel_n_hits_per_sample_a = [5, 6, 7],
           sel_ieqtls = example_ieqtls 47 [Fin 1, Fin 0, Fin 3],
           hits_per_cov_data = [(''c1'', 12), (''c2'', 47), (''c3'', 9)]\<rparr>"
  by (simp add: three_candidates_def three_candidates_mapper_def select_step_def
        initial_selection_def initial_state_def example_optimizer_def)

theorem candidate_selection_witness:
  "1 < length three_candidates
   \<and> map (cand_hits_per_sample three_candidates_mapper) three_candidates
       = [[3, 4, 5], [5, 6, 7], [0, 1, 2]]
   \<and> map (cand_hits three_candidates_mapper) three_candidates = [12, 47, 9]
   \<and> map (cand_min three_candidates_mapper) three_candidates = [3, 5, 0]
   \<and> (\<exists>sel. select_covariate three_candidates_mapper three_candidates
               (initial_selection example_optimizer (initial_state example_optimizer)) = Inr sel
         \<and> sel_cov sel = Some ''c2''
         \<and> sel_context_a sel = Some [Fin 1, Fin 0, Fin 3]
         \<and> sel_n_hits sel = 47)"
proof -
  have many: "1 < length three_candidates"
    by (simp add: three_candidates_def)
  have per_sample: "map (cand_hits_per_sample three_candidates_mapper) three_candidates
       = [[3, 4, 5], [5, 6, 7], [0, 1, 2]]"
    by (simp add: three_candidates_def cand_hits_per_sample_def three_candidates_mapper_def)
  have hits: "map (cand_hits three_candidates_mapper) three_candidates = [12, 47, 9]"
    by (simp add: three_candidates_def three_candidates_values)
  have mins: "map (cand_min three_candidates_mapper) three_candidates = [3, 5, 0]"
    by (simp add: three_candidates_def three_candidates_values)
  from candidate_selection [OF many three_candidates_samples, of example_optimizer]
  obtain sel where sel: "select_covariate three_candidates_mapper three_candidates
               (initial_selection example_optimizer (initial_state example_optimizer)) = Inr sel"
    by (elim exE conjE)
  from sel have "sel_cov sel = Some ''c2'' \<and> sel_context_a sel = Some [Fin 1, Fin 0, Fin 3]
      \<and> sel_n_hits sel = 47"
    unfolding three_candidates_selected by auto
  with sel have "\<exists>sel. select_covariate three_candidates_mapper three_candidates
               (initial_selection example_optimizer (initial_state example_optimizer)) = Inr sel
         \<and> sel_cov sel = Some ''c2''
         \<and> sel_context_a sel = Some [Fin 1, Fin 0, Fin 3]
         \<and> sel_n_hits sel = 47"
    by (intro exI [of _ sel] conjI) simp_all
  with many per_sample hits mins show ?thesis
    by (intro conjI)
qed

subsection \<open>The oscillation check\<close>

lemma sqrt16: "sqrt 16 = 4"
  using real_sqrt_abs [of 4] by simp

lemma sqrt9: "sqrt 9 = 3"
  using real_sqrt_abs [of 3] by simp

lemmas pearson_eval = calc_pearsonr_vector_def np_mean_def np_sum_def np_binop_def np_sub_def
  Let_def real_sqrt_divide sqrt16 sqrt9

lemma pearson_pairs:
  "calc_pearsonr_vector [Fin 2, Fin 1, Fin 0] [Fin 0, Fin 1, Fin 2] = Inr (Fin (- 1))"
  "calc_pearsonr_vector [Fin 0, Fin 1, Fin 2] [Fin 0, Fin 1, Fin 0] = Inr (Fin 0)"
  "calc_pearsonr_vector [Fin 0, Fin 1, Fin 0] [Fin 0, Fin 2, Fin 4] = Inr (Fin 0)"
  "calc_pearsonr_vector [Fin 0, Fin 2, Fin 4] [Fin 0, Fin 2, Fin 0] = Inr (Fin 0)"
  "calc_pearsonr_vector [Fin 0, Fin 1, Fin 0] [Fin 0, Fin 2, Fin 0] = Inr (Fin 1)"
  "calc_pearsonr_vector [Fin 0, Fin 1, Fin 2] [Fin 0, Fin 2, Fin 4] = Inr (Fin 1)"
  by (simp_all add: pearson_eval)

lemmas optimize_eval = optimize_ieqtls_def example_ieqtl_def
        calc_vertex_xpos_def zero_to_nan_def np_eq_def np_binop_def Let_def

lemma optimize_examples:
  "optimize_ieqtls [example_ieqtl q1 [Fin 0, Fin 1, Fin 2], example_ieqtl q2 [Fin 0, Fin 1, Fin 2]]
     = Inr [Fin 0, Fin 1, Fin 2]"
  "optimize_ieqtls [example_ieqtl q1 [Fin 0, Fin 1, Fin 0], example_ieqtl q2 [Fin 0, Fin 1, Fin 0]]
     = Inr [Fin 0, Fin 1, Fin 0]"
  "optimize_ieqtls [example_ieqtl q1 [Fin 0, Fin 2, Fin 4], example_ieqtl q2 [Fin 0, Fin 2, Fin 4]]
     = Inr [Fin 0, Fin 2, Fin 4]"
  "optimize_ieqtls [example_ieqtl q1 [Fin 0, Fin 2, Fin 0], example_ieqtl q2 [Fin 0, Fin 2, Fin 0],
                    example_ieqtl q3 [Fin 0, Fin 2, Fin 0]]
     = Inr [Fin 0, Fin 2, Fin 0]"
  by (simp_all add: optimize_eval)

lemma process_loop_unfold:
  "process_loop io find_ieqtls covs n iteration s =
     (if n = 0 then Inr s
      else case process_iteration io find_ieqtls covs iteration s of
        Inl e \<Rightarrow> Inl e
      | Inr (Break s') \<Rightarrow> Inr s'
      | Inr (Continue s') \<Rightarrow> process_loop io find_ieqtls covs (n - 1) (Suc iteration) s')"
  by (cases n) (simp_all cong: sum.case_cong flow.case_cong)

lemmas run_eval = process_def example_optimizer_def initial_state_def process_iteration_def
  optimize_step_def store_iteration_def oscillation_def next_round_def abort_iteration_def
  assign_row_def oscillating_mapper_def oscillation_seed_def optimize_examples pearson_pairs
  overlap_stats_def calculate_log_likelihood_def returned_def iteration_df_def np_sub_def
  process_loop_unfold Let_def


lemma store_iteration_frame:
  assumes "store_iteration io iteration s c m per_sample ieqtls = Inr (s1, c', r, ids)"
  shows "context_a s1 = context_a s" "n_hits s1 = n_hits s" "stop s1 = stop s"
    "prev_included_ieqtls s1 = prev_included_ieqtls s"
    "n_iterations_performed s1 = n_iterations_performed s"
    "assign_row (n_samples io) c' = Inr (iterations_m s1 (iteration + 1))"
    "calc_pearsonr_vector c c' = Inr r"
    "optimize_ieqtls ieqtls = Inr c'"
    "0 < iteration \<Longrightarrow> k \<le> iteration \<Longrightarrow> iterations_m s1 k = iterations_m s k"
  using assms
  by (auto simp: store_iteration_def Let_def split: sum.splits if_splits)


text \<open>
  C4: what the optimiser does. For every iteration with index at least 3 and at least
  \<open>min_iter\<close> that has enough ieQTLs: the newly optimised vector \<open>c'\<close> is stored as row
  \<open>iteration + 1\<close> of the history, the earlier rows are unchanged, \<open>r1\<close> is the
  correlation of row \<open>iteration - 1\<close> with the new row and \<open>r2\<close> that of row
  \<open>iteration - 2\<close> with row \<open>iteration\<close>. If \<open>1 - r1 < tol\<close> or \<open>1 - r2 < tol\<close> the loop is
  left with the stop flag cleared. The run is rolled back exactly when only the second
  comparison passed, or both passed and the previous iteration had more ieQTLs than the
  current one: then the context returned is row \<open>iteration\<close>, the number of ieQTLs
  returned is that of the previous iteration and the iteration is not counted. Otherwise
  the number of ieQTLs returned is that of the current iteration and the iteration is
  counted, but the context returned is still the context \<open>c\<close> with which the iteration
  began, not \<open>c'\<close>: the loop is left before \<open>c'\<close> is assigned. This is where the code
  departs from the claim. If neither comparison passes, the iteration ends in the
  ordinary way.
\<close>

theorem oscillation_check:
  assumes late: "3 \<le> iteration" "min_iter io \<le> int iteration"
      and ctx: "context_a s = Some c"
      and found: "find_ieqtls (cov s) c = (hits, per_sample, ieqtls)"
      and enough: "1 < hits" "np_min per_sample = Inr m" "1 < m"
      and stored: "store_iteration io iteration (s\<lparr>n_hits := hits\<rparr>) c m per_sample ieqtls
                     = Inr (s1, c', r, ids)"
      and r1: "calc_pearsonr_vector (iterations_m s1 (iteration - 1))
                 (iterations_m s1 (iteration + 1)) = Inr r1"
      and r2: "calc_pearsonr_vector (iterations_m s1 (iteration - 2))
                 (iterations_m s1 iteration) = Inr r2"
  shows "optimize_ieqtls ieqtls = Inr c'
     \<and> assign_row (n_samples io) c' = Inr (iterations_m s1 (iteration + 1))
     \<and> (\<forall>k \<le> iteration. iterations_m s1 k = iterations_m s k)
     \<and> (np_lt (np_sub (Fin 1) r1) (tol io) \<or> np_lt (np_sub (Fin 1) r2) (tol io) \<longrightarrow>
          (\<exists>s'. process_iteration io find_ieqtls covs iteration s = Inr (Break s')
             \<and> \<not> stop s'
             \<and> (if (\<not> np_lt (np_sub (Fin 1) r1) (tol io) \<and> np_lt (np_sub (Fin 1) r2) (tol io))
                    \<or> (np_lt (np_sub (Fin 1) r1) (tol io) \<and> np_lt (np_sub (Fin 1) r2) (tol io)
                       \<and> hits < fst (prev_included_ieqtls s))
                 then context_a s' = Some (iterations_m s iteration)
                      \<and> n_hits s' = fst (prev_included_ieqtls s)
                      \<and> n_iterations_performed s' = n_iterations_performed s
                 else context_a s' = Some c
                      \<and> n_hits s' = hits
                      \<and> n_iterations_performed s' = n_iterations_performed s + 1)))
     \<and> (\<not> np_lt (np_sub (Fin 1) r1) (tol io) \<and> \<not> np_lt (np_sub (Fin 1) r2) (tol io) \<longrightarrow>
          process_iteration io find_ieqtls covs iteration s
            = Inr (next_round io s1 c' r ids))"
proof -
  define p1 where "p1 = np_lt (np_sub (Fin 1) r1) (tol io)"
  define p2 where "p2 = np_lt (np_sub (Fin 1) r2) (tol io)"
  define rollback where "rollback \<longleftrightarrow> (\<not> p1 \<and> p2) \<or> (p1 \<and> p2 \<and> hits < fst (prev_included_ieqtls s))"
  have pos: "0 < iteration" "iteration \<noteq> 0"
    using late(1) by simp_all
  note frame = store_iteration_frame [OF stored]
  have f_hits: "n_hits s1 = hits"
    using frame(2) by simp
  have f_ctx: "context_a s1 = Some c"
    using frame(1) ctx by simp
  have f_prev: "prev_included_ieqtls s1 = prev_included_ieqtls s"
    using frame(4) by simp
  have f_perf: "n_iterations_performed s1 = n_iterations_performed s"
    using frame(5) by simp
  have rows: "\<forall>k \<le> iteration. iterations_m s1 k = iterations_m s k"
    using frame(9) [OF pos(1)] by simp
  have row: "iterations_m s1 iteration = iterations_m s iteration"
    using rows by simp
  have step: "process_iteration io find_ieqtls covs iteration s
      = (case oscillation io iteration s1 of
           Inl e \<Rightarrow> Inl e
         | Inr (Some s2) \<Rightarrow> Inr (Break s2)
         | Inr None \<Rightarrow> Inr (next_round io s1 c' r ids))"
    using pos(2) enough
    by (simp add: process_iteration_def ctx found optimize_step_def stored)
  have osc: "oscillation io iteration s1
      = (if p1 \<or> p2 then
           Inr (Some ((if rollback
                       then s1\<lparr>context_a := Some (iterations_m s iteration),
                              n_hits := fst (prev_included_ieqtls s)\<rparr>
                       else s1\<lparr>n_iterations_performed := n_iterations_performed s + 1\<rparr>)
                      \<lparr>stop := False\<rparr>))
         else Inr None)"
  proof -
    have r1': "calc_pearsonr_vector (iterations_m s1 (iteration - Suc 0))
                 (iterations_m s1 (Suc iteration)) = Inr r1"
      using r1 by simp
    have "oscillation io iteration s1
      = (if p1 \<or> p2 then
           Inr (Some ((if (\<not> p1 \<and> p2) \<or> (p1 \<and> p2 \<and> n_hits s1 < fst (prev_included_ieqtls s1))
                       then s1\<lparr>context_a := Some (iterations_m s1 iteration),
                              n_hits := fst (prev_included_ieqtls s1)\<rparr>
                       else s1\<lparr>n_iterations_performed := n_iterations_performed s1 + 1\<rparr>)
                      \<lparr>stop := False\<rparr>))
         else Inr None)"
      using late by (simp add: oscillation_def r1' r2 Let_def p1_def p2_def)
    then show ?thesis
      unfolding f_hits f_prev f_perf row rollback_def .
  qed
  have osc_case: "\<exists>s'. process_iteration io find_ieqtls covs iteration s = Inr (Break s')
             \<and> \<not> stop s'
             \<and> (if rollback
                 then context_a s' = Some (iterations_m s iteration)
                      \<and> n_hits s' = fst (prev_included_ieqtls s)
                      \<and> n_iterations_performed s' = n_iterations_performed s
                 else context_a s' = Some c
                      \<and> n_hits s' = hits
                      \<and> n_iterations_performed s' = n_iterations_performed s + 1)"
    if "p1 \<or> p2"
  proof (cases rollback)
    case True
    with that show ?thesis
      by (simp add: step osc f_perf)
  next
    case False
    with that show ?thesis
      by (simp add: step osc f_hits f_ctx)
  qed
  have no_osc: "process_iteration io find_ieqtls covs iteration s
            = Inr (next_round io s1 c' r ids)"
    if "\<not> p1 \<and> \<not> p2"
    using that by (simp add: step osc)
  show ?thesis
    using frame(8) frame(6) rows osc_case no_osc
    unfolding p1_def p2_def rollback_def by blast
qed


lemma example_ieqtl_id: "ieqtl_id (example_ieqtl q t) = q"
  by (simp add: example_ieqtl_def)

lemma upt_numerals: "[0..<4] = [0, 1, 2, 3]" "[0..<5] = [0, 1, 2, 3, 4]"
  by (simp_all add: upt_rec)

text \<open>
  C4 fails on the oscillating run. At iteration 3, with \<open>min_iter = 3\<close>, the context is
  \<open>(0, 2, 4)\<close> and the newly optimised vector \<open>c'\<close> is \<open>(0, 2, 0)\<close>. Its correlation
  with the context of two iterations back, \<open>(0, 1, 0)\<close>, is 1, and the correlation of the
  previous context \<open>(0, 2, 4)\<close> with the context of three iterations back, \<open>(0, 1, 2)\<close>,
  is 1, so both comparisons pass the tolerance. Every earlier iteration had 2 ieQTLs,
  this one has 3: no earlier iteration had more ieQTLs than the current one, so there is
  no roll-back, and by the claim the run keeps \<open>c' = (0, 2, 0)\<close>. The run does treat the
  iteration as kept: it returns its 3 ieQTLs and counts it, so that the iteration table
  ends with \<open>(0, 2, 0)\<close>. But the context it returns is \<open>(0, 2, 4)\<close>.
\<close>

theorem oscillating_run_not_as_claimed:
  "map_sum id (\<lambda>s. (returned s, iteration_df s, info_df_N s))
     (process example_optimizer oscillating_mapper [(''c1'', oscillation_seed)])
   = Inr ((Some [Fin 0, Fin 2, Fin 4], 3, False),
          [[Fin 2, Fin 1, Fin 0], [Fin 0, Fin 1, Fin 2], [Fin 0, Fin 1, Fin 0],
           [Fin 0, Fin 2, Fin 4], [Fin 0, Fin 2, Fin 0]],
          [Fin 2, Fin 2, Fin 2, Fin 3])
   \<and> min_iter example_optimizer = 3
   \<and> calc_pearsonr_vector [Fin 0, Fin 1, Fin 0] [Fin 0, Fin 2, Fin 0] = Inr (Fin 1)
   \<and> calc_pearsonr_vector [Fin 0, Fin 1, Fin 2] [Fin 0, Fin 2, Fin 4] = Inr (Fin 1)
   \<and> np_lt (np_sub (Fin 1) (Fin 1)) (tol example_optimizer)
   \<and> optimize_ieqtls (map (\<lambda>q. example_ieqtl q [Fin 0, Fin 2, Fin 0]) [''q1'', ''q2'', ''q3''])
       = Inr [Fin 0, Fin 2, Fin 0]"
  by (simp add: run_eval info_df_N_def upt_numerals)

theorem oscillation_check_witness:
  "3 \<le> (3::nat) \<and> min_iter example_optimizer \<le> int 3
   \<and> context_a oscillation_state = Some [Fin 0, Fin 2, Fin 4]
   \<and> oscillating_mapper (cov oscillation_state) [Fin 0, Fin 2, Fin 4]
       = (3, [3, 3, 3], map (\<lambda>q. example_ieqtl q [Fin 0, Fin 2, Fin 0]) [''q1'', ''q2'', ''q3''])
   \<and> np_min [3, 3, 3] = Inr 3
   \<and> fst (prev_included_ieqtls oscillation_state) = 5
   \<and> calc_pearsonr_vector (iterations_m oscillation_state 2) [Fin 0, Fin 2, Fin 0] = Inr (Fin 1)
   \<and> calc_pearsonr_vector (iterations_m oscillation_state 1) (iterations_m oscillation_state 3)
       = Inr (Fin 1)
   \<and> (\<exists>s'. process_iteration example_optimizer oscillating_mapper [(''c1'', oscillation_seed)] 3
               oscillation_state = Inr (Break s')
          \<and> \<not> stop s' \<and> context_a s' = Some [Fin 0, Fin 2, Fin 4] \<and> n_hits s' = 5
          \<and> n_iterations_performed s' = 3)"
proof -
  let ?ieqtls = "map (\<lambda>q. example_ieqtl q [Fin 0, Fin 2, Fin 0]) [''q1'', ''q2'', ''q3'']"
  have late: "3 \<le> (3::nat)" "min_iter example_optimizer \<le> int 3"
    by (simp_all add: example_optimizer_def)
  have ctx: "context_a oscillation_state = Some [Fin 0, Fin 2, Fin 4]"
    by (simp add: oscillation_state_def)
  have found: "oscillating_mapper (cov oscillation_state) [Fin 0, Fin 2, Fin 4] = (3, [3, 3, 3], ?ieqtls)"
    by (simp add: oscillating_mapper_def oscillation_seed_def)
  have enough: "1 < (3::nat)" "np_min [3, 3, 3] = Inr 3"
    by simp_all
  have prev: "fst (prev_included_ieqtls oscillation_state) = 5"
    by (simp add: oscillation_state_def)
  have rows: "iterations_m oscillation_state 1 = [Fin 0, Fin 1, Fin 2]"
    "iterations_m oscillation_state 2 = [Fin 0, Fin 1, Fin 0]"
    "iterations_m oscillation_state 3 = [Fin 0, Fin 2, Fin 4]"
    by (simp_all add: oscillation_state_def)
  have "\<exists>s1. store_iteration example_optimizer 3 (oscillation_state\<lparr>n_hits := 3\<rparr>)
                 [Fin 0, Fin 2, Fin 4] 3 [3, 3, 3] ?ieqtls
               = Inr (s1, [Fin 0, Fin 2, Fin 0], Fin 0, {''q1'', ''q2'', ''q3''})"
    by (simp add: store_iteration_def optimize_examples pearson_pairs assign_row_def
          example_optimizer_def Let_def example_ieqtl_id)
  then obtain s1 where stored: "store_iteration example_optimizer 3 (oscillation_state\<lparr>n_hits := 3\<rparr>)
                 [Fin 0, Fin 2, Fin 4] 3 [3, 3, 3] ?ieqtls
               = Inr (s1, [Fin 0, Fin 2, Fin 0], Fin 0, {''q1'', ''q2'', ''q3''})" ..
  note frame = store_iteration_frame [OF stored]
  have new_row: "iterations_m s1 (3 + 1) = [Fin 0, Fin 2, Fin 0]"
    using frame(6) by (simp add: assign_row_def example_optimizer_def)
  have old_rows: "iterations_m s1 (3 - 1) = [Fin 0, Fin 1, Fin 0]"
    "iterations_m s1 (3 - 2) = [Fin 0, Fin 1, Fin 2]"
    "iterations_m s1 3 = [Fin 0, Fin 2, Fin 4]"
    using frame(9) [of 2] frame(9) [of 1] frame(9) [of 3]
    by (simp_all add: oscillation_state_def)
  have r1: "calc_pearsonr_vector (iterations_m s1 (3 - 1)) (iterations_m s1 (3 + 1)) = Inr (Fin 1)"
    unfolding new_row old_rows by (rule pearson_pairs)
  have r2: "calc_pearsonr_vector (iterations_m s1 (3 - 2)) (iterations_m s1 3) = Inr (Fin 1)"
    unfolding old_rows by (rule pearson_pairs)
  have p: "np_lt (np_sub (Fin 1) (Fin 1)) (tol example_optimizer)"
    by (simp add: example_optimizer_def np_sub_def)
  from oscillation_check [where find_ieqtls = oscillating_mapper
      and covs = "[(''c1'', oscillation_seed)]" and s = oscillation_state,
      OF late ctx found enough(1) enough(2) enough(1) stored r1 r2]
  have "\<exists>s'. process_iteration example_optimizer oscillating_mapper [(''c1'', oscillation_seed)] 3
               oscillation_state = Inr (Break s')
          \<and> \<not> stop s' \<and> context_a s' = Some [Fin 0, Fin 2, Fin 4] \<and> n_hits s' = 5
          \<and> n_iterations_performed s' = 3"
    using p by (simp add: prev rows oscillation_state_def)
  moreover have "calc_pearsonr_vector (iterations_m oscillation_state 2) [Fin 0, Fin 2, Fin 0] = Inr (Fin 1)"
    unfolding rows by (rule pearson_pairs)
  moreover have "calc_pearsonr_vector (iterations_m oscillation_state 1) (iterations_m oscillation_state 3)
       = Inr (Fin 1)"
    unfolding rows by (rule pearson_pairs)
  ultimately show ?thesis
    using late ctx found enough(2) prev by (intro conjI)
qed

section \<open>Properties of main.py\<close>

subsection \<open>A first component that is aborted\<close>

lemma components_loop_unfold:
  "components_loop cfg io find_with covs n comp_count st =
     (if n = 0 then Inr st
      else case component_step cfg io find_with covs comp_count st of
        Inl e \<Rightarrow> Inl e
      | Inr (Break st') \<Rightarrow> Inr st'
      | Inr (Continue st') \<Rightarrow> components_loop cfg io find_with covs (n - 1) (Suc comp_count) st')"
  by (cases n) (simp_all cong: sum.case_cong flow.case_cong)

text \<open>
  With a single candidate, an iteration 0 in which the mapper finds at most one ieQTL, or
  at most one ieQTL for some sample, ends process: it returns no context, the number of
  ieQTLs found and a cleared stop flag.
\<close>

lemma process_abort_first_iteration:
  assumes iters: "0 < max_iter io"
      and hits: "find_ieqtls (Some name) v = (hits, per_sample, qs)"
      and least: "np_min per_sample = Inr m"
      and few: "hits \<le> 1 \<or> m \<le> 1"
  shows "process io find_ieqtls [(name, v)]
           = Inr ((initial_state io)\<lparr>context_a := None, cov := Some name, n_hits := hits,
                                     stop := False\<rparr>)"
proof -
  obtain k where k: "nat (max_iter io) = Suc k"
    using iters by (cases "nat (max_iter io)") simp_all
  have it: "process_iteration io find_ieqtls [(name, v)] 0 (initial_state io)
              = Inr (Break ((initial_state io)\<lparr>context_a := None, cov := Some name,
                                               n_hits := hits, stop := False\<rparr>))"
    using few
    by (auto simp add: process_iteration_def initial_state_def hits least optimize_step_def
          abort_iteration_def)
  show ?thesis
    using iters by (simp add: process_def k it)
qed

lemma no_hits_process:
  "process example_optimizer no_hits_mapper one_candidate
     = Inr ((initial_state example_optimizer)\<lparr>context_a := None, cov := Some ''c1'',
                                               n_hits := 0, stop := False\<rparr>)"
  unfolding one_candidate_def
  by (rule process_abort_first_iteration [where per_sample = "[0, 0, 0]" and qs = "[]" and m = 0])
     (simp_all add: example_optimizer_def no_hits_mapper_def)

text \<open>
  Claim C1 as stated does not hold: it lets a run with \<^verbatim>\<open>-force_continue\<close> go on to
  the second component after the first was aborted at iteration 0. In the run below the
  flag is set, two components are asked for and the mapper finds no ieQTL; the run ends
  by \<^verbatim>\<open>exit()\<close> after the first component, and neither \<^verbatim>\<open>PIC1/component.npy\<close> nor
  \<^verbatim>\<open>PIC2/component.npy\<close> nor any other file of \<^verbatim>\<open>PIC2\<close> is written.
\<close>

theorem forced_run_stops_after_abort:
  "force_continue forced_config \<and> n_components forced_config = 2
   \<and> (\<exists>fs'. run_components forced_config example_optimizer (\<lambda>pics. no_hits_mapper)
               (\<lambda>i pic. 0) one_candidate Map.empty = Exit None fs'
          \<and> fs' (ComponentNpy 1) = None \<and> fs' (ComponentNpy 2) = None
          \<and> fs' (IterationTxt 2) = None
          \<and> fs' SummaryStatsTxt = Some (SummaryStats [(Fin 0, NaN), (NaN, NaN)]))"
  by (simp add: forced_config_def default_config_def run_components_def identify_components_def
        initial_driver_state_def numeral_2_eq_2 component_step_def no_hits_process Let_def
        finish_run_def process_files_def initial_state_def)

text \<open>
  Claim C1, amended: when process returns no context for the first component, the driver
  records the number of ieQTLs of that component in the summary statistics and leaves the
  loop, whether \<^verbatim>\<open>-force_continue\<close> is set or not. No component was counted, so the run
  writes SummaryStats.txt.gz and ends by \<^verbatim>\<open>exit()\<close>, which is exit code 0. No
  component.npy, components.txt.gz, PICs.txt.gz or interaction table is written, and no
  file of a later component.
\<close>

theorem aborted_first_component:
  assumes comps: "0 < n_components cfg"
      and fresh: "fs (ComponentNpy 1) = None"
      and ret: "process io (find_with []) covs = Inr s"
      and none: "context_a s = None"
  shows "\<exists>fs'. run_components cfg io find_with raw_n_hits covs fs = Exit None fs'
           \<and> exit_code (run_components cfg io find_with raw_n_hits covs fs) = 0
           \<and> fs' SummaryStatsTxt
                = Some (SummaryStats ((Fin (real (n_hits s)), NaN)
                                        # replicate (nat (n_components cfg) - 1) (NaN, NaN)))
           \<and> (\<forall>k. fs' (ComponentNpy k) = fs (ComponentNpy k))
           \<and> fs' ComponentsTxt = fs ComponentsTxt
           \<and> fs' PICsTxt = fs PICsTxt
           \<and> (\<forall>k. fs' (PICInteractionsTxt k) = fs (PICInteractionsTxt k))
           \<and> (\<forall>k. 1 < k \<longrightarrow> fs' (IterationTxt k) = fs (IterationTxt k)
                              \<and> fs' (InfoTxt k) = fs (InfoTxt k))"
proof -
  obtain n where n: "nat (n_components cfg) = Suc n"
    using comps by (cases "nat (n_components cfg)") simp_all
  define st0 where "st0 = initial_driver_state cfg io fs"
  define st2 where "st2 = st0\<lparr>pic_a := None, stop_d := stop s,
      summary_stats_m := (Fin (real (n_hits s)), NaN) # replicate n (NaN, NaN),
      out_files := process_files 1 s fs\<rparr>"
  have fresh': "fs (ComponentNpy (Suc 0)) = None"
    using fresh by simp
  have step: "component_step cfg io find_with covs 0 st0 = Inr (Break st2)"
    by (simp add: component_step_def st0_def st2_def initial_driver_state_def Let_def
          fresh' ret none n)
  have loop: "identify_components cfg io find_with covs fs = Inr st2"
    using comps by (simp add: identify_components_def n st0_def [symmetric] step)
  have run: "run_components cfg io find_with raw_n_hits covs fs
           = Exit None ((process_files 1 s fs)
               (SummaryStatsTxt \<mapsto> SummaryStats
                  ((Fin (real (n_hits s)), NaN) # replicate (nat (n_components cfg) - 1) (NaN, NaN))))"
    by (simp add: run_components_def loop finish_run_def st2_def st0_def initial_driver_state_def n)
  show ?thesis
    unfolding run by (simp add: process_files_def Let_def)
qed

theorem aborted_first_component_witness:
  "0 < n_components forced_config
   \<and> (Map.empty :: files) (ComponentNpy 1) = None
   \<and> (\<exists>s. process example_optimizer no_hits_mapper one_candidate = Inr s \<and> context_a s = None
        \<and> n_hits s = 0)
   \<and> (\<exists>fs'. run_components forced_config example_optimizer (\<lambda>pics. no_hits_mapper)
               (\<lambda>i pic. 0) one_candidate Map.empty = Exit None fs'
          \<and> exit_code (run_components forced_config example_optimizer (\<lambda>pics. no_hits_mapper)
               (\<lambda>i pic. 0) one_candidate Map.empty) = 0
          \<and> fs' SummaryStatsTxt = Some (SummaryStats [(Fin 0, NaN), (NaN, NaN)])
          \<and> fs' (ComponentNpy 2) = None)"
proof -
  let ?s = "(initial_state example_optimizer)\<lparr>context_a := None, cov := Some ''c1'',
                                               n_hits := 0, stop := False\<rparr>"
  have comps: "0 < n_components forced_config"
    by (simp add: forced_config_def default_config_def)
  have n: "nat (n_components forced_config) - Suc 0 = Suc 0"
    by (simp add: forced_config_def default_config_def)
  have fresh: "(Map.empty :: files) (ComponentNpy 1) = None"
    by simp
  have none: "context_a ?s = None"
    by simp
  from aborted_first_component [where find_with = "\<lambda>pics. no_hits_mapper"
         and raw_n_hits = "\<lambda>i pic. 0", OF comps fresh no_hits_process none]
  obtain fs' where
    r: "run_components forced_config example_optimizer (\<lambda>pics. no_hits_mapper)
               (\<lambda>i pic. 0) one_candidate Map.empty = Exit None fs'"
    and c: "exit_code (run_components forced_config example_optimizer (\<lambda>pics. no_hits_mapper)
               (\<lambda>i pic. 0) one_candidate Map.empty) = 0"
    and st: "fs' SummaryStatsTxt = Some (SummaryStats ((Fin (real (n_hits ?s)), NaN)
                       # replicate (nat (n_components forced_config) - 1) (NaN, NaN)))"
    and npy: "\<forall>k. fs' (ComponentNpy k) = (Map.empty :: files) (ComponentNpy k)"
    by (elim exE conjE)
  have st': "fs' SummaryStatsTxt = Some (SummaryStats [(Fin 0, NaN), (NaN, NaN)])"
    using st by (simp add: n)
  have npy2: "fs' (ComponentNpy 2) = None"
    using npy by simp
  have p: "\<exists>s. process example_optimizer no_hits_mapper one_candidate = Inr s
             \<and> context_a s = None \<and> n_hits s = 0"
    by (simp add: no_hits_process)
  show ?thesis
    using comps fresh p r c st' npy2 by (intro conjI exI [of _ fs']) simp_all
qed

subsection \<open>A last component that did not converge\<close>

lemma counted_initial: "counted io 0 (initial_driver_state cfg io fs)"
  by (simp add: counted_def initial_driver_state_def)

lemma component_step_counted:
  assumes "counted io k st"
      and "component_step cfg io find_with covs k st = Inr r"
  shows "case r of Break st' \<Rightarrow> counted io k st' | Continue st' \<Rightarrow> counted io (Suc k) st'"
  using assms
  by (auto simp add: component_step_def counted_def Let_def load_component_def count_component_def
        process_files_def
      split: if_splits option.splits content.splits sum.splits)

lemma components_loop_counted:
  "counted io k st \<Longrightarrow> components_loop cfg io find_with covs n k st = Inr st'
     \<Longrightarrow> \<exists>k'. counted io k' st'"
proof (induction n arbitrary: k st)
  case 0
  then show ?case by auto
next
  case (Suc n)
  show ?case
  proof (cases "component_step cfg io find_with covs k st")
    case (Inl e)
    with Suc.prems show ?thesis by simp
  next
    case (Inr r)
    note step = component_step_counted [OF Suc.prems(1) Inr]
    show ?thesis
    proof (cases r)
      case (Break st1)
      with Inr Suc.prems(2) have "st' = st1" by simp
      with step Break show ?thesis by auto
    next
      case (Continue st1)
      with Inr Suc.prems(2)
      have "components_loop cfg io find_with covs n (Suc k) st1 = Inr st'" by simp
      moreover from step Continue have "counted io (Suc k) st1" by simp
      ultimately show ?thesis by (rule Suc.IH [rotated])
    qed
  qed
qed

lemma map_pics_frame:
  "(\<forall>k. q \<noteq> PICInteractionsTxt k)
     \<Longrightarrow> snd (map_pics raw_n_hits i pics (stats, fs)) q = fs q"
  by (induction pics arbitrary: i stats fs) simp_all

text \<open>
  Claim C9. When the loop over the components ends with a component whose stop flag is set
  (process returned it without convergence) and \<^verbatim>\<open>-force_continue\<close> is not set, the run
  goes on after the loop; components.txt.gz holds one row for every component counted and
  its last row is that component, which is also the content of \<^verbatim>\<open>PIC{k}/component.npy\<close>
  for the last \<open>k\<close> counted; PICs.txt.gz holds the rows of components.txt.gz without the
  last one.
\<close>

theorem unconverged_component_left_out:
  assumes run: "identify_components cfg io find_with covs fs = Inr st"
      and unforced: "\<not> force_continue cfg"
      and unconverged: "stop_d st"
      and last_pic: "pic_a st = Some p"
  shows "\<exists>rows fs'. run_components cfg io find_with raw_n_hits covs fs = Next fs'
           \<and> fs' ComponentsTxt = Some (Table rows)
           \<and> fs' PICsTxt = Some (Table (butlast rows))
           \<and> rows \<noteq> [] \<and> length rows = n_components_performed st
           \<and> assign_row (n_samples io) p = Inr (last rows)
           \<and> fs' (ComponentNpy (n_components_performed st)) = Some (Npy p)"
proof -
  from run have loop: "components_loop cfg io find_with covs (nat (n_components cfg)) 0
                         (initial_driver_state cfg io fs) = Inr st"
    by (simp add: identify_components_def split: if_splits)
  from components_loop_counted [OF counted_initial loop]
  obtain k where k: "counted io k st" ..
  define rows where "rows = map (pic_m st) [0..<k]"
  from k last_pic have n: "n_components_performed st = k" and pos: "0 < k"
    and row: "assign_row (n_samples io) p = Inr (pic_m st (k - 1))"
    and df: "components_df st = Some rows"
    and tab: "out_files st ComponentsTxt = Some (Table rows)"
    and npy: "out_files st (ComponentNpy k) = Some (Npy p)"
    by (simp_all add: counted_def rows_def)
  have ne: "rows \<noteq> []" and len: "length rows = k"
    using pos by (simp_all add: rows_def)
  have "last rows = rows ! (k - 1)"
    using ne len by (simp add: last_conv_nth)
  also have "\<dots> = pic_m st (k - 1)"
    using pos by (simp add: rows_def)
  finally have lst: "last rows = pic_m st (k - 1)" .
  define fs1 where "fs1 = (out_files st)(PICsTxt \<mapsto> Table (butlast rows))"
  define mapped where "mapped = map_pics raw_n_hits 0 (butlast rows) (summary_stats_m st, fs1)"
  define fs' where "fs' = (snd mapped)(SummaryStatsTxt \<mapsto> SummaryStats (fst mapped))"
  have fin: "run_components cfg io find_with raw_n_hits covs fs = Next fs'"
    using pos unforced unconverged
    by (simp add: run_components_def run finish_run_def n df Let_def fs'_def mapped_def fs1_def)
  have frame: "fs' q = fs1 q" if "q \<noteq> SummaryStatsTxt" "\<forall>k. q \<noteq> PICInteractionsTxt k" for q
    using that by (simp add: fs'_def mapped_def map_pics_frame)
  have "fs' ComponentsTxt = Some (Table rows)"
    by (simp add: frame fs1_def tab)
  moreover have "fs' PICsTxt = Some (Table (butlast rows))"
    by (simp add: frame fs1_def)
  moreover have "fs' (ComponentNpy (n_components_performed st)) = Some (Npy p)"
    by (simp add: frame fs1_def npy n)
  moreover have "assign_row (n_samples io) p = Inr (last rows)"
    by (simp add: row lst)
  ultimately show ?thesis
    using fin ne len n by (intro exI [of _ rows] exI [of _ fs']) simp
qed

lemma short_process:
  "map_sum id returned (process short_optimizer oscillating_mapper [(''c1'', oscillation_seed)])
     = Inr (Some [Fin 0, Fin 1, Fin 0], 2, True)"
  by (simp add: short_optimizer_def run_eval)

lemma short_run:
  "\<exists>st. identify_components default_config short_optimizer (\<lambda>pics. oscillating_mapper)
           [(''c1'', oscillation_seed)] Map.empty = Inr st
        \<and> stop_d st \<and> pic_a st = Some [Fin 0, Fin 1, Fin 0] \<and> n_components_performed st = 1"
proof -
  obtain s where s: "process short_optimizer oscillating_mapper [(''c1'', oscillation_seed)] = Inr s"
    and c: "context_a s = Some [Fin 0, Fin 1, Fin 0]" and t: "stop s"
    using short_process by (cases "process short_optimizer oscillating_mapper [(''c1'', oscillation_seed)]")
      (auto simp add: returned_def)
  have n: "n_samples short_optimizer = 3"
    by (simp add: short_optimizer_def example_optimizer_def)
  show ?thesis
    by (simp add: identify_components_def default_config_def initial_driver_state_def
          components_loop_unfold component_step_def s c t n Let_def assign_row_def
          count_component_def)
qed

theorem unconverged_component_left_out_witness:
  "\<not> force_continue default_config
   \<and> (\<exists>st. identify_components default_config short_optimizer (\<lambda>pics. oscillating_mapper)
           [(''c1'', oscillation_seed)] Map.empty = Inr st
        \<and> stop_d st \<and> pic_a st = Some [Fin 0, Fin 1, Fin 0] \<and> n_components_performed st = 1)
   \<and> (\<exists>fs'. run_components default_config short_optimizer (\<lambda>pics. oscillating_mapper)
           (\<lambda>i pic. 0) [(''c1'', oscillation_seed)] Map.empty = Next fs'
        \<and> fs' ComponentsTxt = Some (Table [[Fin 0, Fin 1, Fin 0]])
        \<and> fs' PICsTxt = Some (Table [])
        \<and> fs' (ComponentNpy 1) = Some (Npy [Fin 0, Fin 1, Fin 0]))"
proof -
  have unforced: "\<not> force_continue default_config"
    by (simp add: default_config_def)
  obtain st where run: "identify_components default_config short_optimizer
           (\<lambda>pics. oscillating_mapper) [(''c1'', oscillation_seed)] Map.empty = Inr st"
    and unconverged: "stop_d st" and last_pic: "pic_a st = Some [Fin 0, Fin 1, Fin 0]"
    and one: "n_components_performed st = 1"
    using short_run by (elim exE conjE)
  from unconverged_component_left_out [where raw_n_hits = "\<lambda>i pic. 0",
         OF run unforced unconverged last_pic]
  obtain rows fs' where
    r: "run_components default_config short_optimizer (\<lambda>pics. oscillating_mapper)
           (\<lambda>i pic. 0) [(''c1'', oscillation_seed)] Map.empty = Next fs'"
    and comps: "fs' ComponentsTxt = Some (Table rows)"
    and pics: "fs' PICsTxt = Some (Table (butlast rows))"
    and len: "length rows = n_components_performed st"
    and lst: "assign_row (n_samples short_optimizer) [Fin 0, Fin 1, Fin 0] = Inr (last rows)"
    and npy: "fs' (ComponentNpy (n_components_performed st)) = Some (Npy [Fin 0, Fin 1, Fin 0])"
    by (elim exE conjE)
  from len one obtain row where rows: "rows = [row]"
    by (cases rows) simp_all
  from lst have "row = [Fin 0, Fin 1, Fin 0]"
    by (simp add: rows assign_row_def short_optimizer_def example_optimizer_def)
  with rows have rows': "rows = [[Fin 0, Fin 1, Fin 0]]"
    by simp
  have e2: "\<exists>fs'. run_components default_config short_optimizer (\<lambda>pics. oscillating_mapper)
           (\<lambda>i pic. 0) [(''c1'', oscillation_seed)] Map.empty = Next fs'
        \<and> fs' ComponentsTxt = Some (Table [[Fin 0, Fin 1, Fin 0]])
        \<and> fs' PICsTxt = Some (Table [])
        \<and> fs' (ComponentNpy 1) = Some (Npy [Fin 0, Fin 1, Fin 0])"
    using r comps pics npy by (intro exI [of _ fs']) (simp add: rows' one)
  show ?thesis
    using unforced short_run e2 by (intro conjI)
qed

section \<open>Properties of the quality control\<close>

lemma rint_of_int: "rint (of_int k) = of_int k"
  by (simp add: rint_def)

lemma select_mask_Cons:
  "select_mask (b # bs) (x # xs) = (if b then x # select_mask bs xs else select_mask bs xs)"
  by (simp add: select_mask_def)

lemma select_mask_map: "select_mask (map P xs) xs = filter P xs"
  by (induction xs) (simp_all add: select_mask_Cons, simp add: select_mask_def)

lemma assign_stats_length: "length (assign_stats d bs computed) = length bs"
  by (induction d bs computed rule: assign_stats.induct) simp_all

lemma assign_stats_nth:
  assumes "length ps = length (filter P rows)"
      and "i < length rows"
  shows "assign_stats d (map P rows)
           (map (\<lambda>rp. f (fst rp) (snd rp)) (zip (filter P rows) ps)) ! i
         = (if P (rows ! i)
            then f (rows ! i) (ps ! length (filter P (take i rows)))
            else d)"
  using assms
proof (induction rows arbitrary: ps i)
  case Nil
  then show ?case by simp
next
  case (Cons r rows)
  show ?case
  proof (cases "P r")
    case True
    with Cons.prems(1) obtain p ps' where ps: "ps = p # ps'"
      and len: "length ps' = length (filter P rows)"
      by (cases ps) simp_all
    show ?thesis
    proof (cases i)
      case 0
      then show ?thesis using True by (simp add: ps)
    next
      case (Suc j)
      with Cons.prems(2) have j: "j < length rows" by simp
      from Cons.IH [OF len j] show ?thesis
        using True by (simp add: ps Suc)
    qed
  next
    case False
    with Cons.prems(1) have len: "length ps = length (filter P rows)"
      by simp
    show ?thesis
    proof (cases i)
      case 0
      then show ?thesis using False by simp
    next
      case (Suc j)
      with Cons.prems(2) have j: "j < length rows" by simp
      from Cons.IH [OF len j] show ?thesis
        using False by (simp add: Suc)
    qed
  qed
qed

lemma nan_count_all_missing:
  assumes "list_all (\<lambda>c. np_eq c (na_value cfg)) row"
  shows "nan_count cfg row = length row"
proof -
  have "\<And>c. np_eq c (na_value cfg) \<Longrightarrow> np_eq (np_rint c) (na_value cfg)"
    by (auto simp add: np_eq_def na_value_def rint_of_int)
  with assms have "filter (\<lambda>c. np_eq c (na_value cfg)) (map np_rint row) = map np_rint row"
    by (induction row) simp_all
  then show ?thesis
    by (simp add: nan_count_def count_eq_def)
qed

lemma genotype_stats_nth:
  assumes gs: "genotype_stats cfg hwe geno = Inr tbl"
      and i: "i < length (df_rows geno)"
  shows "length tbl = length (df_rows geno)"
    and "\<exists>ps. hwe (map one_a (filter (cr_keep cfg) (df_rows geno)))
                  (map zero_a (filter (cr_keep cfg) (df_rows geno)))
                  (map two_a (filter (cr_keep cfg) (df_rows geno))) = Inr ps
             \<and> tbl ! i = (if cr_keep cfg (df_rows geno ! i)
                          then stats_row cfg (df_rows geno ! i)
                                 (ps ! length (filter (cr_keep cfg) (take i (df_rows geno))))
                          else empty_stats (length (df_columns geno)))"
proof -
  let ?rows = "df_rows geno"
  let ?sel = "filter (cr_keep cfg) ?rows"
  from gs obtain ps where ps: "hwe (map one_a ?sel) (map zero_a ?sel) (map two_a ?sel) = Inr ps"
    and len: "length ps = length ?sel"
    and tbl: "tbl = assign_stats (empty_stats (length (df_columns geno))) (map (cr_keep cfg) ?rows)
                      (map (\<lambda>rp. stats_row cfg (fst rp) (snd rp)) (zip ?sel ps))"
    by (auto simp add: genotype_stats_def calculate_genotype_stats_def Let_def select_mask_map
          split: sum.splits if_splits)
  show "length tbl = length ?rows"
    by (simp add: tbl assign_stats_length)
  note nth = assign_stats_nth [where P = "cr_keep cfg" and f = "stats_row cfg", OF len i]
  have "tbl ! i = (if cr_keep cfg (?rows ! i)
                   then stats_row cfg (?rows ! i) (ps ! length (filter (cr_keep cfg) (take i ?rows)))
                   else empty_stats (length (df_columns geno)))"
    unfolding tbl nth ..
  with ps show "\<exists>ps. hwe (map one_a ?sel) (map zero_a ?sel) (map two_a ?sel) = Inr ps
             \<and> tbl ! i = (if cr_keep cfg (?rows ! i)
                          then stats_row cfg (?rows ! i)
                                 (ps ! length (filter (cr_keep cfg) (take i ?rows)))
                          else empty_stats (length (df_columns geno)))"
    by blast
qed

text \<open>
  Claim C6. The quality control of \<^verbatim>\<open>Main.start\<close> works on the genotype frame as the
  call rate step left it. When it returns, its mask has one entry for every row, the
  rows of the eQTL table and of the genotype frame that are kept are those of the mask,
  and a row is kept if and only if its number of non-missing cells is at least 6, its
  smallest genotype group has at least \<^verbatim>\<open>mgs\<close> samples (2 by default), its
  Hardy-Weinberg p-value is at least \<^verbatim>\<open>hw_pval\<close> (\<^verbatim>\<open>1e-4\<close> by default) and its minor
  allele frequency is greater than \<^verbatim>\<open>maf\<close> (0.01 by default). The counts are taken
  after rounding the genotypes. The Hardy-Weinberg p-value of a row that is not missing
  everywhere is the one the exact test returns for it, among the rows that are not
  missing everywhere; that of a row missing everywhere is NaN, and the row is dropped.
  In particular a smallest group below \<^verbatim>\<open>mgs\<close> drops the row.
\<close>

theorem quality_control_retention:
  assumes qc: "quality_control cfg hwe eqtls geno = Inr r"
      and i: "i < length (df_rows geno)"
  shows "length (qc_mask r) = length (df_rows geno)
         \<and> qc_eqtl_df r = select_mask (qc_mask r) eqtls
         \<and> df_rows (qc_geno_df r) = select_mask (qc_mask r) (df_rows geno)
         \<and> (qc_mask r ! i \<longleftrightarrow>
              6 \<le> n_count cfg (df_rows geno ! i)
              \<and> mgs cfg \<le> int (sgz (df_rows geno ! i))
              \<and> np_ge (stats_HW_pval (qc_stats r ! i)) (hw_pval cfg)
              \<and> np_gt (maf_a (df_rows geno ! i)) (maf cfg))
         \<and> (int (sgz (df_rows geno ! i)) < mgs cfg \<longrightarrow> \<not> qc_mask r ! i)
         \<and> (\<exists>ps. hwe (map one_a (filter (cr_keep cfg) (df_rows geno)))
                    (map zero_a (filter (cr_keep cfg) (df_rows geno)))
                    (map two_a (filter (cr_keep cfg) (df_rows geno))) = Inr ps
               \<and> stats_HW_pval (qc_stats r ! i)
                   = (if cr_keep cfg (df_rows geno ! i)
                      then ps ! length (filter (cr_keep cfg) (take i (df_rows geno)))
                      else NaN))"
proof -
  let ?row = "df_rows geno ! i"
  from qc obtain tbl where gs: "genotype_stats cfg hwe geno = Inr tbl"
    and m: "qc_mask r = combined_keep_mask cfg geno tbl"
    and st: "qc_stats r = tbl"
    and e: "qc_eqtl_df r = select_mask (qc_mask r) eqtls"
    and g: "qc_geno_df r = select_rows (qc_mask r) geno"
    by (auto simp add: quality_control_def Let_def loc_rows_def split: sum.splits if_splits)
  note tb = genotype_stats_nth [OF gs i]
  from tb(2) obtain ps where
    ps: "hwe (map one_a (filter (cr_keep cfg) (df_rows geno)))
             (map zero_a (filter (cr_keep cfg) (df_rows geno)))
             (map two_a (filter (cr_keep cfg) (df_rows geno))) = Inr ps"
    and ti: "tbl ! i = (if cr_keep cfg ?row
                        then stats_row cfg ?row
                               (ps ! length (filter (cr_keep cfg) (take i (df_rows geno))))
                        else empty_stats (length (df_columns geno)))"
    by blast
  have len: "length (qc_mask r) = length (df_rows geno)"
    by (simp add: m combined_keep_mask_def tb(1))
  have nth: "qc_mask r ! i = keep_row cfg ?row (tbl ! i)"
    using i by (simp add: m combined_keep_mask_def tb(1))
  have hw: "stats_HW_pval (tbl ! i)
              = (if cr_keep cfg ?row
                 then ps ! length (filter (cr_keep cfg) (take i (df_rows geno))) else NaN)"
    by (simp add: ti stats_row_def empty_stats_def)
  have keep: "keep_row cfg ?row (tbl ! i) \<longleftrightarrow>
          6 \<le> n_count cfg ?row \<and> mgs cfg \<le> int (sgz ?row)
          \<and> np_ge (stats_HW_pval (tbl ! i)) (hw_pval cfg) \<and> np_gt (maf_a ?row) (maf cfg)"
  proof (cases "cr_keep cfg ?row")
    case True
    with ti have f: "stats_N (tbl ! i) = Fin (real (n_count cfg ?row))"
      "stats_min_GS (tbl ! i) = Fin (real (sgz ?row))"
      "stats_MAF (tbl ! i) = maf_a ?row"
      by (simp_all add: stats_row_def)
    have "real_of_int (mgs cfg) \<le> real (sgz ?row) \<longleftrightarrow> mgs cfg \<le> int (sgz ?row)"
      by linarith
    then show ?thesis
      using True by (simp add: keep_row_def f np_ge_def)
  next
    case False
    then have "list_all (\<lambda>c. np_eq c (na_value cfg)) ?row"
      by (simp add: cr_keep_def)
    then have "n_count cfg ?row = 0"
      by (simp add: n_count_def nan_count_all_missing)
    then show ?thesis
      using False by (simp add: keep_row_def)
  qed
  have low: "\<not> qc_mask r ! i" if "int (sgz ?row) < mgs cfg"
    using that keep nth by simp
  have hw': "\<exists>ps. hwe (map one_a (filter (cr_keep cfg) (df_rows geno)))
                    (map zero_a (filter (cr_keep cfg) (df_rows geno)))
                    (map two_a (filter (cr_keep cfg) (df_rows geno))) = Inr ps
               \<and> stats_HW_pval (qc_stats r ! i)
                   = (if cr_keep cfg ?row
                      then ps ! length (filter (cr_keep cfg) (take i (df_rows geno)))
                      else NaN)"
    using ps hw st by blast
  have rows: "df_rows (qc_geno_df r) = select_mask (qc_mask r) (df_rows geno)"
    by (simp add: g select_rows_def)
  have iff: "qc_mask r ! i \<longleftrightarrow>
              6 \<le> n_count cfg ?row \<and> mgs cfg \<le> int (sgz ?row)
              \<and> np_ge (stats_HW_pval (qc_stats r ! i)) (hw_pval cfg)
              \<and> np_gt (maf_a ?row) (maf cfg)"
    using keep nth st by simp
  show ?thesis
    using len e rows iff low hw' by (intro conjI impI)
qed

lemma rint_numerals:
  "rint 0 = 0" "rint 1 = 1" "rint (numeral n) = numeral n" "rint (- numeral n) = - numeral n"
  "rint (- 1) = - 1"
  using rint_of_int [of 0] rint_of_int [of 1] rint_of_int [of "numeral n"]
    rint_of_int [of "- numeral n"] rint_of_int [of "- 1"]
  by simp_all

lemma rint_fractions: "rint (1 / 5) = 0" "rint (9 / 5) = 2"
proof -
  have f: "\<lfloor>1 / 5 :: real\<rfloor> = 0" "\<lfloor>9 / 5 :: real\<rfloor> = 1"
    by (simp_all add: floor_eq_iff)
  show "rint (1 / 5) = 0" "rint (9 / 5) = 2"
    unfolding rint_def Let_def f by simp_all
qed

lemmas stats_eval = nan_count_def n_count_def zero_a_def one_a_def two_a_def sgz_def
  allele1_a_def allele2_a_def maf_a_def count_eq_def np_eq_def na_value_def rint_numerals
  rint_fractions

lemma example_rows:
  "df_rows example_geno ! 0 = [Fin (1 / 5), Fin 0, Fin 1, Fin 1, Fin 2, Fin (9 / 5)]"
  "df_rows example_geno ! Suc 0 = [Fin 0, Fin 0, Fin 0, Fin 1, Fin 2, Fin 2]"
  "df_rows example_geno ! 2 = [Fin (- 1), Fin (- 1), Fin (- 1), Fin (- 1), Fin (- 1), Fin (- 1)]"
  "length (df_rows example_geno) = 3"
  by (simp_all add: example_geno_def)

lemma example_counts:
  "n_count default_config [Fin (1 / 5), Fin 0, Fin 1, Fin 1, Fin 2, Fin (9 / 5)] = 6"
  "sgz [Fin (1 / 5), Fin 0, Fin 1, Fin 1, Fin 2, Fin (9 / 5)] = 2"
  "maf_a [Fin (1 / 5), Fin 0, Fin 1, Fin 1, Fin 2, Fin (9 / 5)] = Fin (1 / 2)"
  "one_a [Fin (1 / 5), Fin 0, Fin 1, Fin 1, Fin 2, Fin (9 / 5)] = 2"
  "zero_a [Fin (1 / 5), Fin 0, Fin 1, Fin 1, Fin 2, Fin (9 / 5)] = 2"
  "two_a [Fin (1 / 5), Fin 0, Fin 1, Fin 1, Fin 2, Fin (9 / 5)] = 2"
  "n_count default_config [Fin 0, Fin 0, Fin 0, Fin 1, Fin 2, Fin 2] = 6"
  "sgz [Fin 0, Fin 0, Fin 0, Fin 1, Fin 2, Fin 2] = 1"
  "one_a [Fin 0, Fin 0, Fin 0, Fin 1, Fin 2, Fin 2] = 1"
  "zero_a [Fin 0, Fin 0, Fin 0, Fin 1, Fin 2, Fin 2] = 3"
  "two_a [Fin 0, Fin 0, Fin 0, Fin 1, Fin 2, Fin 2] = 2"
  "n_count default_config [Fin (- 1), Fin (- 1), Fin (- 1), Fin (- 1), Fin (- 1), Fin (- 1)] = 0"
  by (simp_all add: stats_eval default_config_def)

lemma example_cr_keep:
  "filter (cr_keep default_config) (df_rows example_geno)
     = [[Fin (1 / 5), Fin 0, Fin 1, Fin 1, Fin 2, Fin (9 / 5)],
        [Fin 0, Fin 0, Fin 0, Fin 1, Fin 2, Fin 2]]"
  "cr_keep default_config [Fin (1 / 5), Fin 0, Fin 1, Fin 1, Fin 2, Fin (9 / 5)]"
  "cr_keep default_config [Fin 0, Fin 0, Fin 0, Fin 1, Fin 2, Fin 2]"
  by (simp_all add: cr_keep_def example_geno_def np_eq_def na_value_def default_config_def)

lemma example_quality_control:
  "\<exists>r. quality_control default_config example_hwe example_eqtls example_geno = Inr r"
  by (simp add: quality_control_def genotype_stats_def calculate_genotype_stats_def
        example_hwe_def select_mask_map example_cr_keep loc_rows_def combined_keep_mask_def
        Let_def assign_stats_length example_eqtls_def)
     (simp add: example_geno_def)

theorem quality_control_retention_witness:
  "\<exists>r. quality_control default_config example_hwe example_eqtls example_geno = Inr r
        \<and> qc_mask r = [True, False, False]
        \<and> map (\<lambda>e. SNPName (snd e)) (qc_eqtl_df r) = [''snp1'']
        \<and> df_rows (qc_geno_df r) = [[Fin (1 / 5), Fin 0, Fin 1, Fin 1, Fin 2, Fin (9 / 5)]]
        \<and> sgz (df_rows example_geno ! 0) = 2 \<and> sgz (df_rows example_geno ! 1) = 1
        \<and> stats_HW_pval (qc_stats r ! 0) = Fin (37 / 77)
        \<and> mgs default_config = 2"
proof -
  obtain r where qc: "quality_control default_config example_hwe example_eqtls example_geno = Inr r"
    using example_quality_control ..
  have i0: "0 < length (df_rows example_geno)" and i1: "Suc 0 < length (df_rows example_geno)"
    and i2: "2 < length (df_rows example_geno)"
    by (simp_all add: example_rows)
  have cfg: "mgs default_config = 2" "hw_pval default_config = Fin (1 / 10000)"
    "maf default_config = Fin (1 / 100)"
    by (simp_all add: default_config_def)
  have ps: "example_hwe [2, Suc 0] [2, 3] [2, 2] = Inr [Fin (37 / 77), Fin (5 / 33)]"
    by (simp add: example_hwe_def)
  from quality_control_retention [OF qc i0]
  have len: "length (qc_mask r) = 3"
    and e: "qc_eqtl_df r = select_mask (qc_mask r) example_eqtls"
    and g: "df_rows (qc_geno_df r) = select_mask (qc_mask r) (df_rows example_geno)"
    by (simp_all add: example_rows)
  from quality_control_retention [OF qc i0]
  have hw0: "stats_HW_pval (qc_stats r ! 0) = Fin (37 / 77)"
    by (auto simp add: example_rows example_counts example_cr_keep ps)
  from quality_control_retention [OF qc i0]
  have m0: "qc_mask r ! 0"
    by (simp add: example_rows example_counts cfg hw0 np_ge_def np_gt_def)
  from quality_control_retention [OF qc i1]
  have m1: "\<not> qc_mask r ! Suc 0"
    by (simp add: example_rows example_counts cfg)
  from quality_control_retention [OF qc i2]
  have m2: "\<not> qc_mask r ! 2"
    by (simp add: example_rows example_counts cfg)
  from len obtain a b c where abc: "qc_mask r = [a, b, c]"
    by (cases "qc_mask r"; simp; cases "tl (qc_mask r)"; simp; cases "tl (tl (qc_mask r))"; simp)
  with m0 m1 m2 have m: "qc_mask r = [True, False, False]"
    by simp
  have "map (\<lambda>e. SNPName (snd e)) (qc_eqtl_df r) = [''snp1'']"
    by (simp add: e m example_eqtls_def select_mask_def)
  moreover have "df_rows (qc_geno_df r) = [[Fin (1 / 5), Fin 0, Fin 1, Fin 1, Fin 2, Fin (9 / 5)]]"
    by (simp add: g m example_geno_def select_mask_def)
  ultimately show ?thesis
    using qc m cfg hw0 by (intro exI [of _ r]) (simp add: example_rows example_counts)
qed

section \<open>Properties of the start of a run\<close>

subsection \<open>The example run up to the quality control\<close>

lemma np_unique_None:
  "dataset_sample_counts
     [(''s1'', ''None''), (''s2'', ''None''), (''s3'', ''None''), (''s4'', ''None''),
      (''s5'', ''None''), (''s6'', ''None'')]
     = [(''None'', 6)]"
  by (simp add: dataset_sample_counts_def np_unique_counts_def)

lemma example_call_rate:
  "calculate_call_rate default_config example_geno
     (construct_dataset_df
        [(''s1'', ''None''), (''s2'', ''None''), (''s3'', ''None''), (''s4'', ''None''),
      (''s5'', ''None''), (''s6'', ''None'')])
   = Inr (example_geno, [(''None CR'', [Fin 1, Fin 1, Fin 0])])"
  by (simp add: calculate_call_rate_def construct_dataset_df_def np_unique_None example_geno_def
        call_rate_s_def select_mask_def np_eq_def na_value_def default_config_def fill_missing_def)

lemma default_thresholds:
  "mgs default_config = 2" "hw_pval default_config = Fin (1 / 10000)"
  "maf default_config = Fin (1 / 100)" "na_value default_config = Fin (- 1)"
  by (simp_all add: default_config_def na_value_def)

lemma example_stats:
  "\<exists>tbl. genotype_stats default_config example_hwe example_geno = Inr tbl
     \<and> combined_keep_mask default_config example_geno tbl = [True, False, False]"
proof -
  have rows: "df_rows example_geno
                = [[Fin (1 / 5), Fin 0, Fin 1, Fin 1, Fin 2, Fin (9 / 5)],
                   [Fin 0, Fin 0, Fin 0, Fin 1, Fin 2, Fin 2],
                   [Fin (- 1), Fin (- 1), Fin (- 1), Fin (- 1), Fin (- 1), Fin (- 1)]]"
    by (simp add: example_geno_def)
  have missing: "\<not> cr_keep default_config
                     [Fin (- 1), Fin (- 1), Fin (- 1), Fin (- 1), Fin (- 1), Fin (- 1)]"
    by (simp add: cr_keep_def default_thresholds np_eq_def)
  show ?thesis
    by (simp add: genotype_stats_def calculate_genotype_stats_def select_mask_map
          example_cr_keep example_counts example_hwe_def Let_def combined_keep_mask_def)
       (simp add: rows keep_row_def stats_row_def empty_stats_def example_cr_keep missing
          example_counts np_ge_def np_gt_def default_thresholds)
qed

lemma example_qc:
  assumes qc: "quality_control default_config example_hwe example_eqtls example_geno = Inr r"
  shows "qc_mask r = [True, False, False]
         \<and> qc_eqtl_df r = [(0, \<lparr>SNPName = ''snp1'', ProbeName = ''gene1'', FDR = Fin (1 / 2)\<rparr>)]
         \<and> qc_geno_df r = \<lparr>df_index = [''snp1''],
               df_columns = [''s1'', ''s2'', ''s3'', ''s4'', ''s5'', ''s6''],
               df_rows = [[Fin (1 / 5), Fin 0, Fin 1, Fin 1, Fin 2, Fin (9 / 5)]]\<rparr>
         \<and> geno_n_skipped r = 2"
proof -
  obtain tbl where t: "genotype_stats default_config example_hwe example_geno = Inr tbl"
    and m: "combined_keep_mask default_config example_geno tbl = [True, False, False]"
    using example_stats by blast
  from qc have r: "r = \<lparr>qc_eqtl_df = select_mask [True, False, False] example_eqtls,
                         qc_geno_df = select_rows [True, False, False] example_geno,
                         qc_mask = [True, False, False], qc_stats = tbl,
                         geno_n_skipped = 2\<rparr>"
    by (auto simp add: quality_control_def t m Let_def loc_rows_def example_eqtls_def)
  show ?thesis
    unfolding r by (simp add: select_mask_def select_rows_def example_geno_def example_eqtls_def)
qed

lemma example_check_genotypes:
  "\<exists>ch. check_genotypes default_config example_hwe example_inputs Map.empty = Next ch
         \<and> qc_mask (ch_qc ch) = [True, False, False]
         \<and> qc_eqtl_df (ch_qc ch)
             = [(0, \<lparr>SNPName = ''snp1'', ProbeName = ''gene1'', FDR = Fin (1 / 2)\<rparr>)]
         \<and> qc_geno_df (ch_qc ch) = \<lparr>df_index = [''snp1''],
               df_columns = [''s1'', ''s2'', ''s3'', ''s4'', ''s5'', ''s6''],
               df_rows = [[Fin (1 / 5), Fin 0, Fin 1, Fin 1, Fin 2, Fin (9 / 5)]]\<rparr>
         \<and> geno_n_skipped (ch_qc ch) = 2
         \<and> ch_std_df ch =
     [(''s1'', ''None''), (''s2'', ''None''), (''s3'', ''None''), (''s4'', ''None''),
      (''s5'', ''None''), (''s6'', ''None'')]"
proof -
  obtain r where qc: "quality_control default_config example_hwe example_eqtls example_geno = Inr r"
    using example_quality_control ..
  note r = example_qc [OF qc]
  have cols: "df_columns example_geno = [''s1'', ''s2'', ''s3'', ''s4'', ''s5'', ''s6'']"
    by (simp add: example_geno_def)
  show ?thesis
    by (simp add: check_genotypes_def sample_to_dataset_def example_inputs_def cols
          np_unique_None example_call_rate qc r Let_def)
qed

subsection \<open>The discovery FDR of the eQTLs\<close>



lemma check_genotypes_Next:
  assumes "check_genotypes cfg hwe inp fs = Next ch"
  obtains std cr r where "sample_to_dataset inp fs = Next std"
    and "dataset_sample_counts std \<noteq> []"
    and "calculate_call_rate cfg (geno_df inp) (construct_dataset_df std) = Inr cr"
    and "quality_control cfg hwe (eqtl_df inp) (fst cr) = Inr r"
    and "ch = \<lparr>ch_std_df = std, ch_dataset_df = construct_dataset_df std, ch_qc = r,
               ch_files = fs(CallRateTxt \<mapsto> Table (map snd (snd cr)),
                            GenotypeStatsTxt \<mapsto>
                              Table (stats_table (qc_stats r) (qc_mask r)))\<rparr>"
proof -
  from assms obtain std where s: "sample_to_dataset inp fs = Next std"
    by (cases "sample_to_dataset inp fs") (simp_all add: check_genotypes_def)
  from assms s have ne: "dataset_sample_counts std \<noteq> []"
    by (auto simp add: check_genotypes_def split: if_splits)
  from assms s ne obtain cr where
    c: "calculate_call_rate cfg (geno_df inp) (construct_dataset_df std) = Inr cr"
    by (cases "calculate_call_rate cfg (geno_df inp) (construct_dataset_df std)")
       (simp_all add: check_genotypes_def Let_def)
  from assms s ne c obtain r where
    q: "quality_control cfg hwe (eqtl_df inp) (fst cr) = Inr r"
    by (cases "quality_control cfg hwe (eqtl_df inp) (fst cr)")
       (simp_all add: check_genotypes_def Let_def)
  from assms have ch: "ch = \<lparr>ch_std_df = std, ch_dataset_df = construct_dataset_df std, ch_qc = r,
                              ch_files = fs(CallRateTxt \<mapsto> Table (map snd (snd cr)),
                                           GenotypeStatsTxt \<mapsto>
                                             Table (stats_table (qc_stats r) (qc_mask r)))\<rparr>"
    by (simp add: check_genotypes_def s ne c q Let_def)
  from s ne c q ch show ?thesis ..
qed







subsection \<open>The exit status\<close>

lemma bind_stage_Exit:
  assumes "bind_stage x f = Exit status fs'"
  shows "x = Exit status fs' \<or> (\<exists>y. x = Next y \<and> f y = Exit status fs')"
  using assms by (cases x) simp_all

lemma of_result_Exit: "of_result x \<noteq> Exit status fs'"
  by (cases x) simp_all

lemma validate_data_Exit:
  assumes "validate_data std eqtls geno expr covs tcovs fs = Exit status fs'"
  shows "status = None"
  using assms
  by (auto simp add: validate_data_def Let_def split: if_splits option.splits)

lemma sample_to_dataset_Exit:
  assumes "sample_to_dataset inp fs = Exit status fs'"
  shows "status = None"
  using assms
  by (auto simp add: sample_to_dataset_def split: option.splits
        dest!: bind_stage_Exit dest: validate_data_Exit)

lemma check_genotypes_Exit:
  assumes "check_genotypes cfg hwe inp fs = Exit status fs'"
  shows "status = None"
proof -
  from assms have "sample_to_dataset inp fs = Exit status fs'
      \<or> (\<exists>std. sample_to_dataset inp fs = Next std \<and> dataset_sample_counts std \<noteq> []
            \<and> bind_stage (of_result (calculate_call_rate cfg (geno_df inp) (construct_dataset_df std)))
                 (\<lambda>cr. bind_stage (of_result (quality_control cfg hwe (eqtl_df inp) (fst cr)))
                     (\<lambda>qc. Next \<lparr>ch_std_df = std, ch_dataset_df = construct_dataset_df std,
                                  ch_qc = qc,
                                  ch_files = fs(CallRateTxt \<mapsto> Table (map snd (snd cr)),
                                               GenotypeStatsTxt \<mapsto>
                                                 Table (stats_table (qc_stats qc) (qc_mask qc)))\<rparr>))
                = Exit status fs')"
    by (auto simp add: check_genotypes_def Let_def dest!: bind_stage_Exit split: if_splits)
  then show ?thesis
  proof
    assume "sample_to_dataset inp fs = Exit status fs'"
    then show ?thesis by (rule sample_to_dataset_Exit)
  next
    assume "\<exists>std. sample_to_dataset inp fs = Next std \<and> dataset_sample_counts std \<noteq> []
            \<and> bind_stage (of_result (calculate_call_rate cfg (geno_df inp) (construct_dataset_df std)))
                 (\<lambda>cr. bind_stage (of_result (quality_control cfg hwe (eqtl_df inp) (fst cr)))
                     (\<lambda>qc. Next \<lparr>ch_std_df = std, ch_dataset_df = construct_dataset_df std,
                                  ch_qc = qc,
                                  ch_files = fs(CallRateTxt \<mapsto> Table (map snd (snd cr)),
                                               GenotypeStatsTxt \<mapsto>
                                                 Table (stats_table (qc_stats qc) (qc_mask qc)))\<rparr>))
                = Exit status fs'"
    then show ?thesis
      by (auto dest!: bind_stage_Exit simp add: of_result_Exit)
  qed
qed

lemma load_other_data_Exit:
  assumes "load_other_data inp ch = Exit status fs'"
  shows "status = None"
  using assms
  by (auto simp add: load_other_data_def Let_def split: sum.splits if_splits
        dest!: bind_stage_Exit dest: validate_data_Exit)

lemma load_tech_cov_Exit:
  assumes "load_tech_cov df std fs = Exit status fs'"
  shows "status = None"
  using assms
  by (auto simp add: load_tech_cov_def Let_def split: option.splits if_splits
        dest!: bind_stage_Exit dest: validate_data_Exit)

lemma prepare_Exit:
  assumes "prepare cfg inp ch loaded = Exit status fs'"
  shows "status = None"
  using assms
  by (auto simp add: prepare_def Let_def of_result_Exit
        dest!: bind_stage_Exit dest: load_tech_cov_Exit)

lemma run_components_Exit:
  assumes "run_components cfg io find_with raw_n_hits covs fs = Exit status fs'"
  shows "status = None"
  using assms
  by (auto simp add: run_components_def finish_run_def Let_def
        split: sum.splits if_splits option.splits)

lemma start_Exit:
  assumes "start cfg env io inp fs = Exit status fs'"
  shows "status = None"
  using assms
  by (auto simp add: start_def dest!: bind_stage_Exit
        dest: check_genotypes_Exit load_other_data_Exit prepare_Exit run_components_Exit)

lemma start_header_mismatch:
  assumes "std_df inp = Some std" and "df_columns (geno_df inp) \<noteq> map fst std"
  shows "start cfg env io inp fs = Exit None fs"
  using assms
  by (simp add: start_def check_genotypes_def sample_to_dataset_def validate_data_def)

lemma start_nan:
  assumes ch: "check_genotypes cfg (calc_hwe_pvalue env) inp fs = Next ch"
      and kept: "qc_eqtl_df (ch_qc ch) \<noteq> []"
      and nan: "isna (covs_df inp)"
  shows "start cfg env io inp fs = Exit None (ch_files ch)"
proof -
  from kept obtain m where "py_max (map fst (qc_eqtl_df (ch_qc ch))) = Inr m"
    by (cases "qc_eqtl_df (ch_qc ch)") simp_all
  then have "load_other_data inp ch = Exit None (ch_files ch)"
    using nan by (simp add: load_other_data_def Let_def)
  then show ?thesis
    by (simp add: start_def ch)
qed

lemma no_pics_exit:
  assumes "identify_components cfg io find_with covs fs = Inr st"
      and "n_components_performed st = 0"
  shows "run_components cfg io find_with raw_n_hits covs fs
           = Exit None ((out_files st)(SummaryStatsTxt \<mapsto> SummaryStats (summary_stats_m st)))"
  using assms by (simp add: run_components_def finish_run_def)

text \<open>
  Claim C2 as stated does not hold. In the run below the sample-to-dataset table names
  samples that are not the columns of the genotype frame: the validation of the input
  fails, nothing is written, and the run ends by \<^verbatim>\<open>exit()\<close>, which is exit code 0.
\<close>

theorem header_mismatch_exits_with_zero:
  "start default_config example_environment example_optimizer mismatched_inputs Map.empty
     = Exit None Map.empty
   \<and> exit_code (start default_config example_environment example_optimizer mismatched_inputs
        Map.empty) = 0
   \<and> df_columns (geno_df mismatched_inputs) = [''s1'', ''s2'', ''s3'', ''s4'', ''s5'', ''s6'']
   \<and> map fst (the (std_df mismatched_inputs)) = [''t1'', ''t2'', ''t3'', ''t4'', ''t5'', ''t6'']"
  by (simp add: start_def check_genotypes_def sample_to_dataset_def validate_data_def
        mismatched_inputs_def example_inputs_def example_geno_def)

text \<open>
  Claim C2, amended. Every call of \<^verbatim>\<open>exit\<close> in \<^verbatim>\<open>Main.start\<close> is without a status, so
  every run that ends by \<^verbatim>\<open>exit\<close> has exit code 0, as a run that ends normally; only
  an exception that nobody catches gives another exit code. In particular the exit code
  is 0 when the header of the genotype frame does not match the sample-to-dataset table
  (nothing is written), when the covariate frame holds a NaN (the run has then written
  the call rates and the genotype statistics, provided an eQTL passed the quality
  control), and when no component could be identified (SummaryStats.txt.gz is written).
\<close>

theorem exit_status:
  "(\<forall>status fs'. start cfg env io inp fs = Exit status fs' \<longrightarrow> status = None)
   \<and> (exit_code (start cfg env io inp fs) \<noteq> 0 \<longrightarrow> (\<exists>e. start cfg env io inp fs = Raise e))
   \<and> (\<forall>std. std_df inp = Some std \<and> df_columns (geno_df inp) \<noteq> map fst std
          \<longrightarrow> start cfg env io inp fs = Exit None fs
              \<and> exit_code (start cfg env io inp fs) = 0)
   \<and> (\<forall>ch. check_genotypes cfg (calc_hwe_pvalue env) inp fs = Next ch
            \<and> qc_eqtl_df (ch_qc ch) \<noteq> [] \<and> isna (covs_df inp)
          \<longrightarrow> start cfg env io inp fs = Exit None (ch_files ch)
              \<and> exit_code (start cfg env io inp fs) = 0)
   \<and> (\<forall>find_with raw_n_hits covs st.
          identify_components cfg io find_with covs fs = Inr st \<and> n_components_performed st = 0
          \<longrightarrow> run_components cfg io find_with raw_n_hits covs fs
                = Exit None ((out_files st)(SummaryStatsTxt \<mapsto> SummaryStats (summary_stats_m st)))
              \<and> exit_code (run_components cfg io find_with raw_n_hits covs fs) = 0)"
proof -
  have a: "\<forall>status fs'. start cfg env io inp fs = Exit status fs' \<longrightarrow> status = None"
    using start_Exit by blast
  have b: "exit_code (start cfg env io inp fs) \<noteq> 0 \<longrightarrow> (\<exists>e. start cfg env io inp fs = Raise e)"
  proof (cases "start cfg env io inp fs")
    case (Exit status fs')
    with a have "status = None" by simp
    with Exit show ?thesis by simp
  qed simp_all
  have c: "\<forall>std. std_df inp = Some std \<and> df_columns (geno_df inp) \<noteq> map fst std
          \<longrightarrow> start cfg env io inp fs = Exit None fs
              \<and> exit_code (start cfg env io inp fs) = 0"
    by (simp add: start_header_mismatch)
  have d: "\<forall>ch. check_genotypes cfg (calc_hwe_pvalue env) inp fs = Next ch
            \<and> qc_eqtl_df (ch_qc ch) \<noteq> [] \<and> isna (covs_df inp)
          \<longrightarrow> start cfg env io inp fs = Exit None (ch_files ch)
              \<and> exit_code (start cfg env io inp fs) = 0"
    by (simp add: start_nan)
  have e: "\<forall>find_with raw_n_hits covs st.
          identify_components cfg io find_with covs fs = Inr st \<and> n_components_performed st = 0
          \<longrightarrow> run_components cfg io find_with raw_n_hits covs fs
                = Exit None ((out_files st)(SummaryStatsTxt \<mapsto> SummaryStats (summary_stats_m st)))
              \<and> exit_code (run_components cfg io find_with raw_n_hits covs fs) = 0"
    by (simp add: no_pics_exit)
  from a b c d e show ?thesis
    by (intro conjI)
qed

lemma nan_check_genotypes:
  "check_genotypes cfg hwe nan_inputs fs = check_genotypes cfg hwe example_inputs fs"
proof -
  have same: "geno_df nan_inputs = geno_df example_inputs"
    "eqtl_df nan_inputs = eqtl_df example_inputs" "std_df nan_inputs = std_df example_inputs"
    by (simp_all add: nan_inputs_def)
  show ?thesis
    by (simp only: check_genotypes_def sample_to_dataset_def same)
qed

theorem exit_status_witness:
  "isna (covs_df nan_inputs)
   \<and> (\<exists>fs'. start default_config example_environment example_optimizer nan_inputs Map.empty
               = Exit None fs'
          \<and> fs' CallRateTxt = Some (Table [[Fin 1, Fin 1, Fin 0]])
          \<and> fs' SummaryStatsTxt = None)
   \<and> exit_code (start default_config example_environment example_optimizer nan_inputs Map.empty)
       = 0"
proof -
  have nan: "isna (covs_df nan_inputs)"
    by (simp add: nan_inputs_def isna_def)
  have hwe: "calc_hwe_pvalue example_environment = example_hwe"
    by (simp add: example_environment_def)
  obtain ch where run: "check_genotypes default_config example_hwe example_inputs Map.empty = Next ch"
    and kept: "qc_eqtl_df (ch_qc ch)
                 = [(0, \<lparr>SNPName = ''snp1'', ProbeName = ''gene1'', FDR = Fin (1 / 2)\<rparr>)]"
    using example_check_genotypes by blast
  have run': "check_genotypes default_config (calc_hwe_pvalue example_environment) nan_inputs
                Map.empty = Next ch"
    by (simp add: hwe nan_check_genotypes run)
  have ne: "qc_eqtl_df (ch_qc ch) \<noteq> []"
    by (simp add: kept)
  from run obtain std cr r where
    c: "calculate_call_rate default_config (geno_df example_inputs) (construct_dataset_df std)
          = Inr cr"
    and s: "sample_to_dataset example_inputs Map.empty = Next std"
    and ch: "ch = \<lparr>ch_std_df = std, ch_dataset_df = construct_dataset_df std, ch_qc = r,
               ch_files = Map.empty(CallRateTxt \<mapsto> Table (map snd (snd cr)),
                            GenotypeStatsTxt \<mapsto>
                              Table (stats_table (qc_stats r) (qc_mask r)))\<rparr>"
    by (rule check_genotypes_Next)
  from s have std: "std = [(''s1'', ''None''), (''s2'', ''None''), (''s3'', ''None''),
                           (''s4'', ''None''), (''s5'', ''None''), (''s6'', ''None'')]"
    by (simp add: sample_to_dataset_def example_inputs_def example_geno_def)
  from c have cr: "snd cr = [(''None CR'', [Fin 1, Fin 1, Fin 0])]"
    by (auto simp add: std example_inputs_def example_call_rate)
  have files: "ch_files ch CallRateTxt = Some (Table [[Fin 1, Fin 1, Fin 0]])"
    "ch_files ch SummaryStatsTxt = None"
    by (simp_all add: ch cr)
  from exit_status [of default_config example_environment example_optimizer nan_inputs Map.empty]
  have "start default_config example_environment example_optimizer nan_inputs Map.empty
          = Exit None (ch_files ch)
        \<and> exit_code (start default_config example_environment example_optimizer nan_inputs
             Map.empty) = 0"
    using run' ne nan by blast
  with nan files show ?thesis
    by (intro conjI exI [of _ "ch_files ch"]) simp_all
qed

section \<open>Properties of the command line\<close>














end
